theory Spec2Isabelle
  imports Complex_Main
begin

section \<open>The ClipForge FFmpeg handler (docker/ffmpeg/handler.py)\<close>

text \<open>
  The handler downloads a video, probes its duration with ffprobe, runs ffmpeg to cut a
  clip or to grab a thumbnail, and answers with a dictionary. Everything it does to the
  outside is made explicit here:
  \<^item> the \<open>world\<close> is the state the handler changes: the file system, the list of
    external commands it has run (in order), and the lines it has printed;
  \<^item> the \<open>env\<close> is what the handler cannot decide: what an HTTP request returns, what a
    process does and how long it takes, which directory \<open>mkdtemp\<close> hands out, whether
    \<open>rmtree\<close> fails. Every theorem holds for every \<open>env\<close>;
  \<^item> an exception is a value of type \<open>exn\<close>, and a function that can raise returns
    \<open>exn + 'a\<close> (\<open>Inl\<close> the exception).

  Seconds are Python floats in the source, that is IEEE 754 doubles. Here a float is the
  real number it stands for, and the two arithmetic operations the handler performs on
  seconds, the sum and the difference of the clamping test, round their exact result to
  the nearest double, ties to even, as the source's \<open>+\<close> and \<open>-\<close> do (\<open>float_add\<close>,
  \<open>float_sub\<close>); comparisons are exact. Infinities, NaN and results beyond the largest
  double are outside the model. \<open>F x\<close> in a command line stands for the text
  \<open>str(x)\<close>. The request is taken as the handler's docstring
  gives it: each field is absent or holds a value of its documented type, so the
  \<open>float(...)\<close> conversions of the request fields do not raise. External processes
  that are run without a timeout are assumed to end.
\<close>

subsection \<open>Data\<close>

type_synonym bytes = string

datatype node = Dir | File bytes

type_synonym filesystem = "string \<rightharpoonup> node"

datatype arg = S string | F real

datatype exn =
    Exception string
  | ValueError string
  | OSError string
  | TimeoutExpired "arg list" real
  | CalledProcessError int "arg list"

record job_input =
  in_operation :: "string option"
  in_video_url :: "string option"
  in_start_time :: "real option"
  in_duration :: "real option"
  in_time :: "real option"
  in_quality :: "string option"
  in_output_format :: "string option"

record event =
  ev_input :: "job_input option"

datatype jv = JBool bool | JStr string | JInt int | JNum real

type_synonym response = "(string \<times> jv) list"

text \<open>One constructor per \<open>print\<close> of the source, holding the values it interpolates.\<close>

datatype log_line =
    Download_Fetching string
  | Download_Progress nat nat
  | Download_Complete nat
  | Info_Duration real
  | Warning_Duration exn
  | FFmpeg_Extracting real real string
  | FFmpeg_Command "arg list"
  | FFmpeg_Stderr string
  | FFmpeg_Success nat
  | Thumbnail_Generating real
  | Thumbnail_Success nat
  | Handler_Received job_input
  | Handler_Workdir string
  | Warning_Clamp
  | Handler_Completed
  | Handler_Failed string
  | Handler_Cleaned
  | Warning_Cleanup string

record world =
  fs :: filesystem
  trace :: "arg list list"
  printed :: "log_line list"

text \<open>
  What \<open>requests.get\<close> and the streaming of its body do: \<open>Http_Error m\<close> is an
  exception before the first byte is written (connection, status, headers, opening the
  destination); \<open>Http_Stream total chunks err\<close> delivers the chunks and then either
  ends (\<open>None\<close>) or raises (\<open>Some m\<close>); \<open>total\<close> is the content-length header.
\<close>

datatype http_result =
    Http_Error string
  | Http_Stream nat "bytes list" "string option"

text \<open>
  What a process does: it cannot be started (\<open>Spawn_failed\<close>, the OSError's text), or
  it would end after \<open>elapsed\<close> seconds with an exit code and its two output streams.
\<close>

datatype proc_outcome =
    Spawn_failed string
  | Exited real int string string

record completed =
  returncode :: int
  stdout :: string
  stderr :: string

record env =
  http_get :: "string \<Rightarrow> http_result"
  mkdtemp :: "filesystem \<Rightarrow> string + string"
  exec :: "arg list \<Rightarrow> filesystem \<Rightarrow> proc_outcome \<times> filesystem"
  rmtree_fail :: "string \<Rightarrow> filesystem \<Rightarrow> (string \<times> filesystem) option"
  parse_float :: "string \<Rightarrow> string + real"
  b64encode :: "bytes \<Rightarrow> string"
  repr_exn :: "exn \<Rightarrow> string"
  dir_size :: nat

subsection \<open>Float arithmetic\<close>

text \<open>The nearest integer, a tie going to the even one.\<close>

definition round_half_even :: "real \<Rightarrow> int" where
  "round_half_even y =
     (let f = \<lfloor>y\<rfloor>; r = y - of_int f
      in if r < 1 / 2 then f else if 1 / 2 < r then f + 1 else if even f then f else f + 1)"

text \<open>
  The distance between neighbouring doubles around \<open>x\<close>: 53 significant bits, the
  smallest exponent that of the subnormal numbers.
\<close>

definition ulp :: "real \<Rightarrow> real" where
  "ulp x = 2 powi (max \<lfloor>log 2 \<bar>x\<bar>\<rfloor> (- 1022) - 52)"

definition round_double :: "real \<Rightarrow> real" where
  "round_double x = (if x = 0 then 0 else of_int (round_half_even (x / ulp x)) * ulp x)"

text \<open>Python's \<open>a + b\<close> and \<open>a - b\<close> on floats.\<close>

definition float_add :: "real \<Rightarrow> real \<Rightarrow> real" where
  "float_add a b = round_double (a + b)"

definition float_sub :: "real \<Rightarrow> real \<Rightarrow> real" where
  "float_sub a b = round_double (a - b)"

subsection \<open>The library calls the handler makes\<close>

definition print_line :: "log_line \<Rightarrow> world \<Rightarrow> world" where
  "print_line l w = w\<lparr>printed := printed w @ [l]\<rparr>"

text \<open>\<open>str(e)\<close>: the message of an exception built from one string, else its rendering.\<close>

definition str_exn :: "env \<Rightarrow> exn \<Rightarrow> string" where
  "str_exn env e =
     (case e of
        Exception m \<Rightarrow> m
      | ValueError m \<Rightarrow> m
      | OSError m \<Rightarrow> m
      | TimeoutExpired c t \<Rightarrow> repr_exn env e
      | CalledProcessError rc c \<Rightarrow> repr_exn env e)"

definition path_exists :: "world \<Rightarrow> string \<Rightarrow> bool" where
  "path_exists w p = (fs w p \<noteq> None)"

definition getsize :: "env \<Rightarrow> world \<Rightarrow> string \<Rightarrow> nat" where
  "getsize env w p =
     (case fs w p of Some (File b) \<Rightarrow> length b | Some Dir \<Rightarrow> dir_size env | None \<Rightarrow> 0)"

definition quote :: "string \<Rightarrow> string" where
  "quote p = CHR 0x27 # p @ [CHR 0x27]"

text \<open>\<open>open(p, 'rb').read()\<close>\<close>

definition read_file :: "world \<Rightarrow> string \<Rightarrow> exn + bytes" where
  "read_file w p =
     (case fs w p of
        Some (File b) \<Rightarrow> Inr b
      | Some Dir \<Rightarrow> Inl (OSError (''[Errno 21] Is a directory: '' @ quote p))
      | None \<Rightarrow> Inl (OSError (''[Errno 2] No such file or directory: '' @ quote p)))"

text \<open>\<open>os.path.join\<close> of two components (posixpath).\<close>

definition path_join :: "string \<Rightarrow> string \<Rightarrow> string" where
  "path_join a b =
     (if b \<noteq> [] \<and> hd b = CHR ''/'' then b
      else if a = [] \<or> last a = CHR ''/'' then a @ b
      else a @ ''/'' @ b)"

text \<open>
  \<open>os.path.splitext(p)[1]\<close>: the text from the last dot of the last path component,
  unless that component has no dot or only dots before it.
\<close>

definition splitext_ext :: "string \<Rightarrow> string" where
  "splitext_ext p =
     (let base = rev (takeWhile (\<lambda>c. c \<noteq> CHR ''/'') (rev p));
          rext = takeWhile (\<lambda>c. c \<noteq> CHR ''.'') (rev base);
          stem = take (length base - length rext - 1) base
      in if CHR ''.'' \<in> set base \<and> (\<exists>c \<in> set stem. c \<noteq> CHR ''.'')
         then CHR ''.'' # rev rext else [])"

text \<open>\<open>tempfile.mkdtemp()\<close>: a new directory, or an OSError.\<close>

definition py_mkdtemp :: "env \<Rightarrow> world \<Rightarrow> (exn + string) \<times> world" where
  "py_mkdtemp env w =
     (case mkdtemp env (fs w) of
        Inl m \<Rightarrow> (Inl (OSError m), w)
      | Inr d \<Rightarrow> (Inr d, w\<lparr>fs := (fs w)(d \<mapsto> Dir)\<rparr>))"

text \<open>\<open>p\<close> is the directory \<open>d\<close> or lies below it.\<close>

definition under :: "string \<Rightarrow> string \<Rightarrow> bool" where
  "under d p = (p = d \<or> take (length d + 1) p = d @ ''/'')"

text \<open>
  \<open>shutil.rmtree(d)\<close>: removes \<open>d\<close> and everything below it, or raises; the
  environment says what a failed removal leaves behind.
\<close>

definition rmtree :: "env \<Rightarrow> string \<Rightarrow> world \<Rightarrow> string option \<times> world" where
  "rmtree env d w =
     (case rmtree_fail env d (fs w) of
        None \<Rightarrow> (None, w\<lparr>fs := (\<lambda>p. if under d p then None else fs w p)\<rparr>)
      | Some (m, left) \<Rightarrow> (Some m, w\<lparr>fs := left\<rparr>))"

text \<open>
  \<open>subprocess.run(cmd, capture_output=True, text=True, timeout=..., check=...)\<close>:
  the command is recorded in the trace; a process that would run longer than the
  timeout raises TimeoutExpired; with \<open>check\<close>, a non-zero exit code raises
  CalledProcessError.
\<close>

definition subprocess_run ::
  "env \<Rightarrow> arg list \<Rightarrow> real option \<Rightarrow> bool \<Rightarrow> world \<Rightarrow> (exn + completed) \<times> world" where
  "subprocess_run env cmd timeout check w =
     (let (oc, fs') = exec env cmd (fs w);
          w' = w\<lparr>fs := fs', trace := trace w @ [cmd]\<rparr>
      in case oc of
           Spawn_failed m \<Rightarrow> (Inl (OSError m), w')
         | Exited elapsed rc out err \<Rightarrow>
             (case timeout of
                Some limit \<Rightarrow>
                  if elapsed > limit then (Inl (TimeoutExpired cmd limit), w')
                  else if check \<and> rc \<noteq> 0 then (Inl (CalledProcessError rc cmd), w')
                  else (Inr \<lparr>returncode = rc, stdout = out, stderr = err\<rparr>, w')
              | None \<Rightarrow>
                  if check \<and> rc \<noteq> 0 then (Inl (CalledProcessError rc cmd), w')
                  else (Inr \<lparr>returncode = rc, stdout = out, stderr = err\<rparr>, w')))"

subsection \<open>download_file\<close>

text \<open>The loop over \<open>response.iter_content\<close>: bytes written, their count, progress lines.\<close>

fun write_chunks ::
  "nat \<Rightarrow> bytes list \<Rightarrow> nat \<times> bytes \<times> log_line list \<Rightarrow> nat \<times> bytes \<times> log_line list" where
  "write_chunks total_size [] acc = acc"
| "write_chunks total_size (chunk # chunks) (downloaded, content, lines) =
     (if chunk \<noteq> [] then
        (let downloaded' = downloaded + length chunk
         in write_chunks total_size chunks
              (downloaded', content @ chunk,
               if total_size > 0 \<and> downloaded' mod (1024 * 1024) = 0
               then lines @ [Download_Progress downloaded' total_size] else lines))
      else write_chunks total_size chunks (downloaded, content, lines))"

definition download_file :: "env \<Rightarrow> string \<Rightarrow> string \<Rightarrow> world \<Rightarrow> (exn + string) \<times> world" where
  "download_file env url destination w =
     (let w1 = print_line (Download_Fetching url) w
      in case http_get env url of
           Http_Error m \<Rightarrow> (Inl (Exception (''Download failed: '' @ m)), w1)
         | Http_Stream total_size chunks err \<Rightarrow>
             (let (downloaded, content, lines) = write_chunks total_size chunks (0, [], []);
                  w2 = w1\<lparr>fs := (fs w1)(destination \<mapsto> File content),
                          printed := printed w1 @ lines\<rparr>
              in case err of
                   Some m \<Rightarrow> (Inl (Exception (''Download failed: '' @ m)), w2)
                 | None \<Rightarrow> (Inr destination, print_line (Download_Complete downloaded) w2)))"

subsection \<open>get_video_duration\<close>

definition probe_cmd :: "string \<Rightarrow> arg list" where
  "probe_cmd input_path =
     [S ''ffprobe'', S ''-v'', S ''error'', S ''-show_entries'', S ''format=duration'',
      S ''-of'', S ''default=noprint_wrappers=1:nokey=1'', S input_path]"

definition get_video_duration :: "env \<Rightarrow> string \<Rightarrow> world \<Rightarrow> real \<times> world" where
  "get_video_duration env input_path w =
     (case subprocess_run env (probe_cmd input_path) None True w of
        (Inl e, w1) \<Rightarrow> (0, print_line (Warning_Duration e) w1)
      | (Inr result, w1) \<Rightarrow>
          (case parse_float env (stdout result) of
             Inl m \<Rightarrow> (0, print_line (Warning_Duration (ValueError m)) w1)
           | Inr duration \<Rightarrow> (duration, print_line (Info_Duration duration) w1)))"

subsection \<open>extract_clip\<close>

record settings =
  crf :: string
  preset :: string

definition quality_presets :: "string \<rightharpoonup> settings" where
  "quality_presets =
     [''high'' \<mapsto> \<lparr>crf = ''23'', preset = ''fast''\<rparr>,
      ''medium'' \<mapsto> \<lparr>crf = ''25'', preset = ''faster''\<rparr>,
      ''low'' \<mapsto> \<lparr>crf = ''28'', preset = ''veryfast''\<rparr>]"

text \<open>\<open>quality_presets.get(quality, quality_presets['medium'])\<close>\<close>

definition select_settings :: "string \<Rightarrow> exn + settings" where
  "select_settings quality =
     (case quality_presets ''medium'' of
        None \<Rightarrow> Inl (Exception ''KeyError: medium'')
      | Some dflt \<Rightarrow>
          (case quality_presets quality of None \<Rightarrow> Inr dflt | Some s \<Rightarrow> Inr s))"

definition extract_cmd :: "string \<Rightarrow> string \<Rightarrow> real \<Rightarrow> real \<Rightarrow> settings \<Rightarrow> arg list" where
  "extract_cmd input_path output_path start_time duration st =
     [S ''ffmpeg'',
      S ''-ss'', F start_time,
      S ''-i'', S input_path,
      S ''-t'', F duration,
      S ''-c:v'', S ''libx264'',
      S ''-preset'', S (preset st),
      S ''-crf'', S (crf st),
      S ''-c:a'', S ''aac'',
      S ''-b:a'', S ''128k'',
      S ''-ar'', S ''44100'',
      S ''-movflags'', S ''+faststart'',
      S ''-pix_fmt'', S ''yuv420p'',
      S ''-y'',
      S output_path]"

text \<open>The body of the \<open>try\<close> of extract_clip (lines 111 to 131).\<close>

definition extract_clip_try :: "env \<Rightarrow> arg list \<Rightarrow> string \<Rightarrow> world \<Rightarrow> (exn + string) \<times> world" where
  "extract_clip_try env cmd output_path w =
     (case subprocess_run env cmd (Some 600) False w of
        (Inl e, w1) \<Rightarrow> (Inl e, w1)
      | (Inr result, w1) \<Rightarrow>
          if returncode result \<noteq> 0 then
            (Inl (Exception (''FFmpeg processing failed: '' @ stderr result)),
             print_line (FFmpeg_Stderr (stderr result)) w1)
          else if \<not> path_exists w1 output_path then
            (Inl (Exception ''Output file was not created''), w1)
          else
            (let file_size = getsize env w1 output_path
             in if file_size = 0 then (Inl (Exception ''Output file is empty''), w1)
                else (Inr output_path, print_line (FFmpeg_Success file_size) w1)))"

definition extract_clip ::
  "env \<Rightarrow> string \<Rightarrow> string \<Rightarrow> real \<Rightarrow> real \<Rightarrow> string \<Rightarrow> world \<Rightarrow> (exn + string) \<times> world" where
  "extract_clip env input_path output_path start_time duration quality w =
     (let w1 = print_line (FFmpeg_Extracting start_time duration quality) w
      in case select_settings quality of
           Inl e \<Rightarrow> (Inl e, w1)
         | Inr st \<Rightarrow>
             (let cmd = extract_cmd input_path output_path start_time duration st;
                  w2 = print_line (FFmpeg_Command cmd) w1
              in case extract_clip_try env cmd output_path w2 of
                   (Inl (TimeoutExpired c t), w3) \<Rightarrow>
                     (Inl (Exception ''FFmpeg processing timed out after 10 minutes''), w3)
                 | (Inl e, w3) \<Rightarrow> (Inl (Exception (''FFmpeg error: '' @ str_exn env e)), w3)
                 | (Inr p, w3) \<Rightarrow> (Inr p, w3)))"

subsection \<open>generate_thumbnail\<close>

definition thumbnail_cmd :: "string \<Rightarrow> string \<Rightarrow> real \<Rightarrow> arg list" where
  "thumbnail_cmd input_path output_path time =
     [S ''ffmpeg'',
      S ''-ss'', F time,
      S ''-i'', S input_path,
      S ''-vframes'', S ''1'',
      S ''-q:v'', S ''2'',
      S ''-vf'', S ''scale=-2:720'',
      S ''-y'',
      S output_path]"

text \<open>The body of the \<open>try\<close> of generate_thumbnail (lines 159 to 169).\<close>

definition generate_thumbnail_try ::
  "env \<Rightarrow> arg list \<Rightarrow> string \<Rightarrow> world \<Rightarrow> (exn + string) \<times> world" where
  "generate_thumbnail_try env cmd output_path w =
     (case subprocess_run env cmd (Some 30) False w of
        (Inl e, w1) \<Rightarrow> (Inl e, w1)
      | (Inr result, w1) \<Rightarrow>
          if returncode result \<noteq> 0 then
            (Inl (Exception (''Thumbnail generation failed: '' @ stderr result)), w1)
          else if \<not> path_exists w1 output_path then
            (Inl (Exception ''Thumbnail file was not created''), w1)
          else
            (let file_size = getsize env w1 output_path
             in (Inr output_path, print_line (Thumbnail_Success file_size) w1)))"

definition generate_thumbnail ::
  "env \<Rightarrow> string \<Rightarrow> string \<Rightarrow> real \<Rightarrow> world \<Rightarrow> (exn + string) \<times> world" where
  "generate_thumbnail env input_path output_path time w =
     (let w1 = print_line (Thumbnail_Generating time) w;
          cmd = thumbnail_cmd input_path output_path time
      in case generate_thumbnail_try env cmd output_path w1 of
           (Inl e, w2) \<Rightarrow> (Inl (Exception (''Thumbnail error: '' @ str_exn env e)), w2)
         | (Inr p, w2) \<Rightarrow> (Inr p, w2))"

subsection \<open>handler\<close>

definition event_get_input :: "event \<Rightarrow> job_input" where
  "event_get_input event =
     (case ev_input event of
        None \<Rightarrow> \<lparr>in_operation = None, in_video_url = None, in_start_time = None,
                  in_duration = None, in_time = None, in_quality = None,
                  in_output_format = None\<rparr>
      | Some job_input \<Rightarrow> job_input)"

text \<open>The thumbnail branch of the dispatch (lines 223 to 243).\<close>

definition handler_thumbnail ::
  "env \<Rightarrow> job_input \<Rightarrow> string \<Rightarrow> string \<Rightarrow> world \<Rightarrow> (exn + response) \<times> world" where
  "handler_thumbnail env job_input temp_dir input_path w =
     (let time = (case in_time job_input of None \<Rightarrow> 0 | Some v \<Rightarrow> v);
          output_path = path_join temp_dir ''thumbnail.jpg''
      in case generate_thumbnail env input_path output_path time w of
           (Inl e, w1) \<Rightarrow> (Inl e, w1)
         | (Inr p, w1) \<Rightarrow>
             (case read_file w1 output_path of
                Inl e \<Rightarrow> (Inl e, w1)
              | Inr output_data \<Rightarrow>
                  (Inr [(''success'', JBool True),
                        (''operation'', JStr ''generate_thumbnail''),
                        (''thumbnail_data'', JStr (b64encode env output_data)),
                        (''file_size'', JInt (int (length output_data))),
                        (''format'', JStr ''jpg''),
                        (''time'', JNum time)], w1)))"

text \<open>The request's clip parameters with their defaults (lines 247 to 250).\<close>

definition requested_start_time :: "job_input \<Rightarrow> real" where
  "requested_start_time job_input = (case in_start_time job_input of None \<Rightarrow> 0 | Some v \<Rightarrow> v)"

definition requested_duration :: "job_input \<Rightarrow> real" where
  "requested_duration job_input = (case in_duration job_input of None \<Rightarrow> 30 | Some v \<Rightarrow> v)"

definition requested_quality :: "job_input \<Rightarrow> string" where
  "requested_quality job_input = (case in_quality job_input of None \<Rightarrow> ''medium'' | Some v \<Rightarrow> v)"

definition requested_format :: "job_input \<Rightarrow> string" where
  "requested_format job_input = (case in_output_format job_input of None \<Rightarrow> ''mp4'' | Some v \<Rightarrow> v)"

text \<open>The clip branch of the dispatch (lines 246 to 283).\<close>

definition handler_extract ::
  "env \<Rightarrow> job_input \<Rightarrow> string \<Rightarrow> string \<Rightarrow> real \<Rightarrow> world \<Rightarrow> (exn + response) \<times> world" where
  "handler_extract env job_input temp_dir input_path video_duration w =
     (let start_time = requested_start_time job_input;
          duration = requested_duration job_input;
          quality = requested_quality job_input;
          output_format = requested_format job_input
      in if start_time < 0 then (Inl (ValueError ''start_time must be >= 0''), w)
         else if duration \<le> 0 then (Inl (ValueError ''duration must be > 0''), w)
         else
           (let clamp = (video_duration > 0 \<and>
                         float_add start_time duration > video_duration);
                w1 = (if clamp then print_line Warning_Clamp w else w);
                duration = (if clamp then float_sub video_duration start_time else duration);
                output_path = path_join temp_dir (''output.'' @ output_format)
            in case extract_clip env input_path output_path start_time duration quality w1 of
                 (Inl e, w2) \<Rightarrow> (Inl e, w2)
               | (Inr p, w2) \<Rightarrow>
                   (case read_file w2 output_path of
                      Inl e \<Rightarrow> (Inl e, w2)
                    | Inr output_data \<Rightarrow>
                        (Inr [(''success'', JBool True),
                              (''operation'', JStr ''extract_clip''),
                              (''clip_data'', JStr (b64encode env output_data)),
                              (''file_size'', JInt (int (length output_data))),
                              (''format'', JStr output_format),
                              (''start_time'', JNum start_time),
                              (''duration'', JNum duration),
                              (''quality'', JStr quality),
                              (''video_duration'', JNum video_duration)], w2))))"

text \<open>Where the download goes (lines 211 to 214).\<close>

definition input_path_for :: "string \<Rightarrow> string \<Rightarrow> string" where
  "input_path_for temp_dir video_url =
     (let url_path = takeWhile (\<lambda>c. c \<noteq> CHR ''?'') video_url;
          input_ext = (if splitext_ext url_path = [] then ''.mp4'' else splitext_ext url_path)
      in path_join temp_dir (''input'' @ input_ext))"

text \<open>
  The \<open>try\<close> block of handler (lines 197 to 286): the result or the exception, the
  value of \<open>temp_dir\<close> when the block is left, and the world. \<open>not video_url\<close>
  holds of an absent field and of the empty string alike, so the absent field is read
  as the empty string.
\<close>

definition handler_try ::
  "env \<Rightarrow> event \<Rightarrow> world \<Rightarrow> (exn + response) \<times> string option \<times> world" where
  "handler_try env event w =
     (let job_input = event_get_input event;
          operation = (case in_operation job_input of None \<Rightarrow> ''extract_clip'' | Some v \<Rightarrow> v);
          video_url = (case in_video_url job_input of None \<Rightarrow> [] | Some v \<Rightarrow> v)
      in if video_url = [] then (Inl (ValueError ''video_url is required''), None, w)
         else
           (case py_mkdtemp env w of
              (Inl e, w1) \<Rightarrow> (Inl e, None, w1)
            | (Inr temp_dir, w1) \<Rightarrow>
                (let w2 = print_line (Handler_Workdir temp_dir) w1;
                     input_path = input_path_for temp_dir video_url
                 in case download_file env video_url input_path w2 of
                      (Inl e, w3) \<Rightarrow> (Inl e, Some temp_dir, w3)
                    | (Inr p, w3) \<Rightarrow>
                        (let (video_duration, w4) = get_video_duration env input_path w3
                         in case (if operation = ''generate_thumbnail''
                                  then handler_thumbnail env job_input temp_dir input_path w4
                                  else handler_extract env job_input temp_dir input_path
                                         video_duration w4) of
                              (Inl e, w5) \<Rightarrow> (Inl e, Some temp_dir, w5)
                            | (Inr result, w5) \<Rightarrow>
                                (Inr result, Some temp_dir, print_line Handler_Completed w5)))))"

text \<open>The \<open>except\<close> clause of handler (lines 288 to 295).\<close>

definition handler_except :: "env \<Rightarrow> event \<Rightarrow> exn \<Rightarrow> world \<Rightarrow> response \<times> world" where
  "handler_except env event e w =
     (let error_msg = str_exn env e
      in ([(''success'', JBool False),
           (''error'', JStr error_msg),
           (''operation'',
            JStr (case in_operation (event_get_input event) of
                    None \<Rightarrow> ''unknown'' | Some v \<Rightarrow> v))],
          print_line (Handler_Failed error_msg) w))"

text \<open>The \<open>finally\<close> clause of handler (lines 297 to 304).\<close>

definition handler_finally :: "env \<Rightarrow> string option \<Rightarrow> world \<Rightarrow> world" where
  "handler_finally env temp_dir w =
     (case temp_dir of
        None \<Rightarrow> w
      | Some d \<Rightarrow>
          if d \<noteq> [] \<and> path_exists w d then
            (case rmtree env d w of
               (None, w1) \<Rightarrow> print_line Handler_Cleaned w1
             | (Some m, w1) \<Rightarrow> print_line (Warning_Cleanup m) w1)
          else w)"

definition handler :: "env \<Rightarrow> event \<Rightarrow> world \<Rightarrow> response \<times> world" where
  "handler env event w =
     (let w0 = print_line (Handler_Received (event_get_input event)) w
      in case handler_try env event w0 of
           (Inr result, temp_dir, w1) \<Rightarrow> (result, handler_finally env temp_dir w1)
         | (Inl e, temp_dir, w1) \<Rightarrow>
             (let (failure, w2) = handler_except env event e w1
              in (failure, handler_finally env temp_dir w2)))"

subsection \<open>The failing probe\<close>

text \<open>
  The duration probe of \<open>input_path\<close> fails on the file system \<open>f\<close>: ffprobe cannot
  be started, or exits with a non-zero code, or prints what \<open>float\<close> rejects.
\<close>

definition probe_fails :: "env \<Rightarrow> string \<Rightarrow> filesystem \<Rightarrow> bool" where
  "probe_fails env input_path f =
     (case fst (exec env (probe_cmd input_path) f) of
        Spawn_failed m \<Rightarrow> True
      | Exited t rc out err \<Rightarrow> rc \<noteq> 0 \<or> isl (parse_float env out))"

subsection \<open>Concrete environments and requests\<close>

text \<open>
  A small world to run the handler in: the download delivers five bytes, \<open>mkdtemp\<close>
  hands out \<open>/tmp/job\<close>, ffprobe behaves as \<open>probe\<close> says, ffmpeg behaves as
  \<open>tool\<close> says and leaves \<open>out\<close> at its output path (its last argument), and
  \<open>rmtree\<close> fails as \<open>rm\<close> says.
\<close>

definition test_env ::
  "proc_outcome \<Rightarrow> proc_outcome \<Rightarrow> node option \<Rightarrow> (string \<times> filesystem) option \<Rightarrow> env" where
  "test_env probe tool out rm =
     \<lparr>http_get = (\<lambda>url. Http_Stream 5 [''vid'', ''eo''] None),
      mkdtemp = (\<lambda>f. Inr ''/tmp/job''),
      exec = (\<lambda>cmd f.
        if cmd \<noteq> [] \<and> hd cmd = S ''ffprobe'' then (probe, f)
        else (tool, case last cmd of S p \<Rightarrow> f(p := out) | F x \<Rightarrow> f)),
      rmtree_fail = (\<lambda>d f. rm),
      parse_float = (\<lambda>s. if s = ''60.000000'' then Inr 60
                          else Inl (''could not convert string to float: '' @ quote s)),
      b64encode = (\<lambda>b. if b = ''clip'' then ''Y2xpcA=='' else []),
      repr_exn = (\<lambda>e. ''Command timed out''),
      dir_size = 4096\<rparr>"

definition probe_60 :: proc_outcome where
  "probe_60 = Exited 1 0 ''60.000000'' []"

definition tool_ok :: proc_outcome where
  "tool_ok = Exited 5 0 [] []"

definition empty_world :: world where
  "empty_world = \<lparr>fs = Map.empty, trace = [], printed = []\<rparr>"

definition clip_input :: "string option \<Rightarrow> string \<Rightarrow> real \<Rightarrow> real \<Rightarrow> string \<Rightarrow> job_input" where
  "clip_input operation url start_time duration quality =
     \<lparr>in_operation = operation, in_video_url = Some url,
      in_start_time = Some start_time, in_duration = Some duration, in_time = None,
      in_quality = Some quality, in_output_format = None\<rparr>"

definition clip_request :: "string option \<Rightarrow> string \<Rightarrow> real \<Rightarrow> real \<Rightarrow> string \<Rightarrow> event" where
  "clip_request operation url start_time duration quality =
     \<lparr>ev_input = Some (clip_input operation url start_time duration quality)\<rparr>"

definition thumbnail_request :: "string \<Rightarrow> real \<Rightarrow> event" where
  "thumbnail_request url time =
     \<lparr>ev_input = Some
        \<lparr>in_operation = Some ''generate_thumbnail'', in_video_url = Some url,
         in_start_time = None, in_duration = None, in_time = Some time,
         in_quality = None, in_output_format = None\<rparr>\<rparr>"

text \<open>The request \<open>{"video_url": ""}\<close>.\<close>

definition empty_url_request :: event where
  "empty_url_request =
     \<lparr>ev_input = Some
        \<lparr>in_operation = None, in_video_url = Some [],
         in_start_time = None, in_duration = None, in_time = None,
         in_quality = None, in_output_format = None\<rparr>\<rparr>"

section \<open>Properties\<close>

subsection \<open>Auxiliary facts\<close>

lemmas eval_defs =
  handler_def handler_try_def handler_except_def handler_finally_def
  handler_extract_def handler_thumbnail_def event_get_input_def input_path_for_def
  requested_start_time_def requested_duration_def requested_quality_def requested_format_def
  generate_thumbnail_def generate_thumbnail_try_def thumbnail_cmd_def
  extract_clip_def extract_clip_try_def extract_cmd_def select_settings_def quality_presets_def
  get_video_duration_def probe_cmd_def probe_fails_def download_file_def subprocess_run_def
  rmtree_def under_def py_mkdtemp_def splitext_ext_def path_join_def read_file_def quote_def
  getsize_def path_exists_def str_exn_def print_line_def
  test_env_def probe_60_def tool_ok_def empty_world_def
  clip_input_def clip_request_def thumbnail_request_def empty_url_request_def
  float_add_def float_sub_def Let_def

text \<open>Rounding to a double.\<close>

lemma round_half_even_of_int [simp]: "round_half_even (of_int k) = k"
  by (simp add: round_half_even_def)

lemma ulp_pos [simp]: "0 < ulp x"
  by (simp add: ulp_def)

lemma round_half_even_nonpos:
  assumes "y \<le> 0"
  shows "round_half_even y \<le> 0"
proof -
  have f: "\<lfloor>y\<rfloor> \<le> 0" using assms by simp
  show ?thesis
  proof (cases "y = of_int \<lfloor>y\<rfloor>")
    case True
    then have "y - of_int \<lfloor>y\<rfloor> < 1 / 2" by simp
    then show ?thesis using f by (simp add: round_half_even_def Let_def)
  next
    case False
    then have "of_int \<lfloor>y\<rfloor> < y" using of_int_floor_le [of y] by linarith
    then have "of_int \<lfloor>y\<rfloor> < (0::real)" using assms by linarith
    then have "\<lfloor>y\<rfloor> < 0" by simp
    then show ?thesis by (simp add: round_half_even_def Let_def)
  qed
qed

lemma round_double_nonpos:
  assumes "x \<le> 0"
  shows "round_double x \<le> 0"
proof (cases "x = 0")
  case True
  then show ?thesis by (simp add: round_double_def)
next
  case False
  have "x / ulp x \<le> 0" using assms by (simp add: divide_le_0_iff less_imp_le)
  then have "round_half_even (x / ulp x) \<le> 0" by (rule round_half_even_nonpos)
  then have "of_int (round_half_even (x / ulp x)) * ulp x \<le> 0"
    by (simp add: mult_le_0_iff less_imp_le)
  then show ?thesis using False by (simp add: round_double_def)
qed

lemma floor_log2_bounds:
  assumes "(2::real) ^ k \<le> x" and "x < 2 ^ (Suc k)"
  shows "\<lfloor>log 2 x\<rfloor> = int k"
proof -
  have "0 < (2::real) ^ k" by simp
  then have x: "0 < x" using assms(1) by linarith
  have "(2::real) powr (of_int (int k)) \<le> x \<and> x < 2 powr (of_int (int k) + 1)"
    using assms by (simp add: powr_realpow powr_add)
  then show ?thesis using floor_log_eq_powr_iff [of x 2 "int k"] x by simp
qed

text \<open>Integers below \<open>2 ^ 53\<close> in absolute value are doubles.\<close>

lemma round_double_of_int:
  assumes "\<bar>n\<bar> < 2 ^ 53"
  shows "round_double (of_int n) = of_int n"
proof (cases "n = 0")
  case True
  then show ?thesis by (simp add: round_double_def)
next
  case False
  define a where "a = nat \<bar>n\<bar>"
  have a: "0 < a" "a < 2 ^ 53" "real a = \<bar>of_int n\<bar>"
    using False assms by (simp_all add: a_def nat_less_iff)
  define k where "k = (LEAST k. a < 2 ^ Suc k)"
  have ex: "a < 2 ^ Suc 52" using a(2) by simp
  then have k1: "a < 2 ^ Suc k" unfolding k_def by (rule LeastI)
  have k52: "k \<le> 52" unfolding k_def using ex by (rule Least_le)
  have k2: "2 ^ k \<le> a"
  proof (cases k)
    case 0
    then show ?thesis using a(1) by simp
  next
    case (Suc j)
    have "\<not> a < 2 ^ Suc j" using not_less_Least [of j "\<lambda>k. a < 2 ^ Suc k"] Suc
      by (simp add: k_def)
    then show ?thesis using Suc by simp
  qed
  have "real (2 ^ k) \<le> real a" using k2 by (simp only: of_nat_le_iff)
  moreover have "real a < real (2 ^ Suc k)" using k1 by (simp only: of_nat_less_iff)
  ultimately have "(2::real) ^ k \<le> real a" "real a < 2 ^ Suc k" by simp_all
  then have e: "\<lfloor>log 2 \<bar>of_int n :: real\<bar>\<rfloor> = int k"
    using floor_log2_bounds [of k "real a"] a(3) by simp
  have u: "ulp (of_int n) = 2 powi (int k - 52)"
    by (simp add: ulp_def e)
  have p: "(2::real) powi (- int j) = inverse (2 ^ j)" for j
    by (simp only: power_int_minus power_int_of_nat)
  have "int k - 52 = - int (52 - k)" using k52 by linarith
  then have "ulp (of_int n) = 2 powi (- int (52 - k))" using u by (simp only:)
  then have u': "ulp (of_int n) = inverse (2 ^ (52 - k))" by (simp only: p)
  have "of_int n / ulp (of_int n) = (of_int (n * 2 ^ (52 - k)) :: real)"
    by (simp add: u' field_simps)
  then have "round_half_even (of_int n / ulp (of_int n)) = n * 2 ^ (52 - k)"
    by (simp only: round_half_even_of_int)
  then show ?thesis using False by (simp add: round_double_def u')
qed

lemma round_double_numeral [simp]:
  assumes "(numeral m :: int) < 2 ^ 53"
  shows "round_double (numeral m) = numeral m"
  using round_double_of_int [of "numeral m"] assms by simp

lemma round_double_neg_numeral [simp]:
  assumes "(numeral m :: int) < 2 ^ 53"
  shows "round_double (- numeral m) = - numeral m"
  using round_double_of_int [of "- numeral m"] assms by simp

lemma round_double_zero [simp]: "round_double 0 = 0"
  by (simp add: round_double_def)

lemma round_double_one [simp]: "round_double 1 = 1"
  using round_double_of_int [of 1] by simp


lemma ulp_eq:
  assumes "2 ^ k \<le> \<bar>x\<bar>" and "\<bar>x\<bar> < 2 ^ Suc k" and "k \<le> 52"
  shows "ulp x = inverse (2 ^ (52 - k))"
proof -
  have e: "\<lfloor>log 2 \<bar>x\<bar>\<rfloor> = int k"
    using assms(1,2) by (rule floor_log2_bounds)
  have m: "max (int k) (- 1022) = int k" by simp
  have d: "int k - 52 = - int (52 - k)" using assms(3) by linarith
  have "ulp x = 2 powi (int k - 52)" by (simp only: ulp_def e m)
  then have "ulp x = 2 powi (- int (52 - k))" by (simp only: d)
  then show ?thesis by (simp only: power_int_minus power_int_of_nat)
qed

text \<open>
  Rounding at work: the exact sum of 50 and the double next above 10 lies above 60, and
  the sum in doubles is 60.
\<close>

lemma round_double_example: "round_double (50 + (10 + 1 / 2 ^ 49)) = 60"
proof -
  define x :: real where "x = 60 + 1 / 2 ^ 49"
  have x0: "x \<noteq> 0" by (simp add: x_def)
  have "2 ^ 5 \<le> \<bar>x\<bar>" "\<bar>x\<bar> < 2 ^ Suc 5" by (simp_all add: x_def)
  then have "ulp x = inverse (2 ^ (52 - 5))" by (rule ulp_eq) simp
  then have u: "ulp x = inverse (2 ^ 47)" by simp
  have q: "x / ulp x = 60 * 2 ^ 47 + 1 / 4"
    unfolding u by (simp add: x_def)
  have f: "\<lfloor>60 * 2 ^ 47 + 1 / 4 :: real\<rfloor> = 60 * 2 ^ 47"
    by (simp add: floor_eq_iff)
  have r: "round_half_even (60 * 2 ^ 47 + 1 / 4) = 60 * 2 ^ 47"
    unfolding round_half_even_def f Let_def by simp
  have "round_double x = of_int (round_half_even (x / ulp x)) * ulp x"
    using x0 by (simp add: round_double_def)
  also have "\<dots> = of_int (60 * 2 ^ 47) * inverse (2 ^ 47)"
    by (subst q, subst r, subst u, rule refl)
  also have "\<dots> = 60" by simp
  finally have "round_double x = 60" .
  moreover have "50 + (10 + 1 / 2 ^ 49) = x" by (simp add: x_def)
  ultimately show ?thesis by (simp only:)
qed

text \<open>The world and the trace.\<close>

lemma print_line_fs [simp]: "fs (print_line l w) = fs w"
  by (simp add: print_line_def)

lemma print_line_trace [simp]: "trace (print_line l w) = trace w"
  by (simp add: print_line_def)

lemma print_line_printed [simp]: "printed (print_line l w) = printed w @ [l]"
  by (simp add: print_line_def)

lemma path_exists_print_line [simp]: "path_exists (print_line l w) p = path_exists w p"
  by (simp add: path_exists_def)

lemma read_file_print_line [simp]: "read_file (print_line l w) p = read_file w p"
  by (simp add: read_file_def)

lemma getsize_print_line [simp]: "getsize env (print_line l w) p = getsize env w p"
  by (simp add: getsize_def)

lemma subprocess_run_trace: "trace (snd (subprocess_run env cmd t c w)) = trace w @ [cmd]"
  by (simp add: subprocess_run_def Let_def split: prod.splits proc_outcome.splits option.splits)

lemma select_settings_total: "\<exists>st. select_settings q = Inr st"
  by (simp add: select_settings_def quality_presets_def)

lemma extract_clip_try_trace:
  "trace (snd (extract_clip_try env cmd output_path w)) = trace w @ [cmd]"
  using subprocess_run_trace [of env cmd "Some 600" False w]
  by (auto simp add: extract_clip_try_def Let_def split: prod.splits sum.splits)

lemma extract_clip_trace:
  assumes "select_settings q = Inr st"
  shows "trace (snd (extract_clip env ip op s d q w)) = trace w @ [extract_cmd ip op s d st]"
  using assms
    extract_clip_try_trace [of env "extract_cmd ip op s d st" op
      "print_line (FFmpeg_Command (extract_cmd ip op s d st)) (print_line (FFmpeg_Extracting s d q) w)"]
  by (auto simp add: extract_clip_def Let_def split: prod.splits sum.splits exn.splits)

lemma extract_clip_try_no_ValueError:
  "fst (extract_clip_try env cmd output_path w) \<noteq> Inl (ValueError m)"
  by (auto simp add: extract_clip_try_def subprocess_run_def Let_def
      split: prod.splits sum.splits proc_outcome.splits option.splits if_splits)

lemma extract_clip_no_ValueError:
  "fst (extract_clip env ip op s d q w) \<noteq> Inl (ValueError m)"
  using select_settings_total [of q]
  by (auto simp add: extract_clip_def Let_def split: prod.splits sum.splits exn.splits)

lemma read_file_no_ValueError: "read_file w p \<noteq> Inl (ValueError m)"
  by (simp add: read_file_def split: option.splits node.splits)



lemma handler_finally_trace [simp]: "trace (handler_finally env t w) = trace w"
  by (simp add: handler_finally_def rmtree_def split: option.splits prod.splits)

lemma py_mkdtemp_trace: "trace (snd (py_mkdtemp env w)) = trace w"
  by (simp add: py_mkdtemp_def split: sum.splits)

lemma download_file_trace: "trace (snd (download_file env url dest w)) = trace w"
  by (simp add: download_file_def Let_def split: http_result.splits prod.splits option.splits)

lemma write_chunks_content:
  "fst (snd (write_chunks tot cs (n, c, l))) = c @ concat cs"
  by (induction cs arbitrary: n c l) (simp_all add: Let_def)

lemma download_file_ok:
  assumes "http_get env url = Http_Stream tot chunks None"
  shows "fst (download_file env url dest w) = Inr dest \<and>
         fs (snd (download_file env url dest w)) = (fs w)(dest \<mapsto> File (concat chunks))"
  using assms write_chunks_content [of tot chunks 0 "[]" "[]"]
  by (auto simp add: download_file_def Let_def split: prod.splits)

lemma get_video_duration_trace:
  "trace (snd (get_video_duration env ip w)) = trace w @ [probe_cmd ip]"
  using subprocess_run_trace [of env "probe_cmd ip" None True w]
  by (auto simp add: get_video_duration_def split: prod.splits sum.splits)

lemma handler_extract_invalid:
  assumes "requested_start_time ji < 0 \<or> requested_duration ji \<le> 0"
  shows "handler_extract env ji td ip D w =
     (Inl (ValueError (if requested_start_time ji < 0 then ''start_time must be >= 0''
                       else ''duration must be > 0'')), w)"
  using assms by (auto simp add: handler_extract_def Let_def)

lemma extract_clip_try_fst_cong:
  assumes "fs w = fs w'"
  shows "fst (extract_clip_try env cmd op w) = fst (extract_clip_try env cmd op w')"
  using assms
  by (auto simp add: extract_clip_try_def subprocess_run_def Let_def path_exists_def getsize_def
      split: prod.splits sum.splits proc_outcome.splits option.splits if_splits)

lemma get_video_duration_fails:
  assumes "probe_fails env ip (fs w)"
  shows "fst (get_video_duration env ip w) = 0 \<and>
         (\<exists>e. printed (snd (get_video_duration env ip w)) = printed w @ [Warning_Duration e])"
  using assms
  by (auto simp add: probe_fails_def get_video_duration_def subprocess_run_def Let_def isl_def
      split: prod.splits sum.splits proc_outcome.splits)

lemma handler_response:
  "fst (handler env ev w) =
     (case fst (handler_try env ev (print_line (Handler_Received (event_get_input ev)) w)) of
        Inr result \<Rightarrow> result
      | Inl e \<Rightarrow> fst (handler_except env ev e w'))"
  by (simp add: handler_def handler_except_def Let_def split: prod.splits sum.splits)

lemma handler_trace:
  "trace (snd (handler env ev w)) =
     trace (snd (snd (handler_try env ev (print_line (Handler_Received (event_get_input ev)) w))))"
  by (simp add: handler_def handler_except_def Let_def split: prod.splits sum.splits)

lemma handler_try_invalid_times:
  assumes url: "in_video_url (event_get_input ev) = Some url" "url \<noteq> []"
    and op: "in_operation (event_get_input ev) \<noteq> Some ''generate_thumbnail''"
    and bad: "requested_start_time (event_get_input ev) < 0 \<or>
              requested_duration (event_get_input ev) \<le> 0"
  shows "(\<exists>e. fst (handler_try env ev w) = Inl e) \<and>
         (trace (snd (snd (handler_try env ev w))) = trace w \<or>
          (\<exists>p. trace (snd (snd (handler_try env ev w))) = trace w @ [probe_cmd p])) \<and>
         (mkdtemp env (fs w) = Inr td \<and> http_get env url = Http_Stream tot chunks None \<longrightarrow>
            fst (handler_try env ev w) =
              Inl (ValueError (if requested_start_time (event_get_input ev) < 0
                               then ''start_time must be >= 0'' else ''duration must be > 0'')) \<and>
            trace (snd (snd (handler_try env ev w))) = trace w @ [probe_cmd (input_path_for td url)])"
proof -
  let ?ji = "event_get_input ev"
  have op': "(case in_operation ?ji of None \<Rightarrow> ''extract_clip'' | Some v \<Rightarrow> v) \<noteq> ''generate_thumbnail''"
    using op by (auto split: option.splits)
  note inv = handler_extract_invalid [OF bad]
  obtain r1 w1 where mk: "py_mkdtemp env w = (r1, w1)" by fastforce
  have tr1: "trace w1 = trace w" using py_mkdtemp_trace [of env w] mk by simp
  show ?thesis
  proof (cases r1)
    case (Inl e)
    then have "handler_try env ev w = (Inl e, None, w1)"
      using url mk by (simp add: handler_try_def Let_def)
    moreover have "mkdtemp env (fs w) \<noteq> Inr td"
      using mk Inl by (auto simp add: py_mkdtemp_def split: sum.splits)
    ultimately show ?thesis using tr1 by simp
  next
    case (Inr d)
    then have d: "mkdtemp env (fs w) = Inr d"
      using mk by (auto simp add: py_mkdtemp_def split: sum.splits)
    let ?ip = "input_path_for d url"
    let ?w2 = "print_line (Handler_Workdir d) w1"
    obtain r3 w3 where dl: "download_file env url ?ip ?w2 = (r3, w3)" by fastforce
    have tr3: "trace w3 = trace w" using download_file_trace [of env url ?ip ?w2] dl tr1 by simp
    show ?thesis
    proof (cases r3)
      case (Inl e)
      then have "handler_try env ev w = (Inl e, Some d, w3)"
        using url mk Inr dl by (simp add: handler_try_def Let_def)
      moreover have "http_get env url \<noteq> Http_Stream tot chunks None"
        using download_file_ok [of env url tot chunks ?ip ?w2] dl Inl by auto
      ultimately show ?thesis using tr3 by simp
    next
      case (Inr p)
      obtain D w4 where gv: "get_video_duration env ?ip w3 = (D, w4)" by fastforce
      have tr4: "trace w4 = trace w @ [probe_cmd ?ip]"
        using get_video_duration_trace [of env ?ip w3] gv tr3 by simp
      have "handler_try env ev w =
              (Inl (ValueError (if requested_start_time ?ji < 0
                                then ''start_time must be >= 0'' else ''duration must be > 0'')),
               Some d, w4)"
        using url mk \<open>r1 = Inr d\<close> dl Inr gv op' by (simp add: handler_try_def Let_def inv)
      then show ?thesis using tr4 d by auto
    qed
  qed
qed


text \<open>The clip branch once the request has passed validation.\<close>

lemma handler_extract_valid:
  assumes "0 \<le> requested_start_time ji" and "0 < requested_duration ji"
  shows "handler_extract env ji td ip D w =
     (let clamp = (D > 0 \<and> float_add (requested_start_time ji) (requested_duration ji) > D);
          w1 = (if clamp then print_line Warning_Clamp w else w);
          duration = (if clamp then float_sub D (requested_start_time ji)
                      else requested_duration ji);
          output_path = path_join td (''output.'' @ requested_format ji)
      in case extract_clip env ip output_path (requested_start_time ji) duration
                (requested_quality ji) w1 of
           (Inl e, w2) \<Rightarrow> (Inl e, w2)
         | (Inr p, w2) \<Rightarrow>
             (case read_file w2 output_path of
                Inl e \<Rightarrow> (Inl e, w2)
              | Inr output_data \<Rightarrow>
                  (Inr [(''success'', JBool True),
                        (''operation'', JStr ''extract_clip''),
                        (''clip_data'', JStr (b64encode env output_data)),
                        (''file_size'', JInt (int (length output_data))),
                        (''format'', JStr (requested_format ji)),
                        (''start_time'', JNum (requested_start_time ji)),
                        (''duration'', JNum duration),
                        (''quality'', JStr (requested_quality ji)),
                        (''video_duration'', JNum D)], w2)))"
  using assms by (simp add: handler_extract_def Let_def)


subsection \<open>Clamping to the source duration\<close>

text \<open>
  C1. In the clip branch, with a probed source duration \<open>D > 0\<close> and validated request
  parameters \<open>s\<close> (start_time) and \<open>d\<close> (duration) such that \<open>s + d > D\<close>, the one
  command the branch runs is ffmpeg with \<open>-t\<close> set to \<open>D - s\<close>, and a success response
  reports \<open>duration = D - s\<close> and echoes \<open>start_time = s\<close> and \<open>video_duration = D\<close>.
  The sum and the difference are those the handler computes, in doubles.
\<close>

theorem clip_duration_clamped:
  assumes "0 \<le> requested_start_time ji" and "0 < requested_duration ji"
    and "0 < D" and "float_add (requested_start_time ji) (requested_duration ji) > D"
  shows "(\<exists>st. trace (snd (handler_extract env ji td ip D w)) =
            trace w @ [extract_cmd ip (path_join td (''output.'' @ requested_format ji))
                         (requested_start_time ji)
                         (float_sub D (requested_start_time ji)) st]) \<and>
         (\<forall>r. fst (handler_extract env ji td ip D w) = Inr r \<longrightarrow>
            map_of r ''duration'' = Some (JNum (float_sub D (requested_start_time ji))) \<and>
            map_of r ''start_time'' = Some (JNum (requested_start_time ji)) \<and>
            map_of r ''video_duration'' = Some (JNum D))"
proof -
  obtain st where st: "select_settings (requested_quality ji) = Inr st"
    using select_settings_total by blast
  let ?op = "path_join td (''output.'' @ requested_format ji)"
  let ?s = "requested_start_time ji"
  have tr: "trace (snd (handler_extract env ji td ip D w)) =
              trace w @ [extract_cmd ip ?op ?s (float_sub D ?s) st]"
    using assms
      extract_clip_trace [OF st, of env ip ?op ?s "float_sub D ?s" "print_line Warning_Clamp w"]
    by (auto simp add: handler_extract_valid Let_def split: prod.splits sum.splits)
  have resp: "\<forall>r. fst (handler_extract env ji td ip D w) = Inr r \<longrightarrow>
            map_of r ''duration'' = Some (JNum (float_sub D ?s)) \<and>
            map_of r ''start_time'' = Some (JNum ?s) \<and>
            map_of r ''video_duration'' = Some (JNum D)"
    using assms
    by (auto simp add: handler_extract_valid Let_def split: prod.splits sum.splits)
  from tr resp show ?thesis by blast
qed

theorem clip_duration_clamped_witness:
  "0 \<le> requested_start_time (clip_input None ''http://h/v.mp4'' 50 30 ''high'') \<and>
   0 < requested_duration (clip_input None ''http://h/v.mp4'' 50 30 ''high'') \<and>
   (0::real) < 60 \<and>
   float_add (requested_start_time (clip_input None ''http://h/v.mp4'' 50 30 ''high''))
     (requested_duration (clip_input None ''http://h/v.mp4'' 50 30 ''high'')) > 60 \<and>
   float_sub 60 (requested_start_time (clip_input None ''http://h/v.mp4'' 50 30 ''high'')) = 10 \<and>
   (\<exists>st. trace (snd (handler_extract (test_env probe_60 tool_ok (Some (File ''clip'')) None)
             (clip_input None ''http://h/v.mp4'' 50 30 ''high'')
             ''/tmp/job'' ''/tmp/job/input.mp4'' 60 empty_world)) =
         trace empty_world @
         [extract_cmd ''/tmp/job/input.mp4'' ''/tmp/job/output.mp4'' 50 10 st]) \<and>
   fst (handler_extract (test_env probe_60 tool_ok (Some (File ''clip'')) None)
             (clip_input None ''http://h/v.mp4'' 50 30 ''high'')
             ''/tmp/job'' ''/tmp/job/input.mp4'' 60 empty_world) =
     Inr [(''success'', JBool True), (''operation'', JStr ''extract_clip''),
          (''clip_data'', JStr ''Y2xpcA==''), (''file_size'', JInt 4),
          (''format'', JStr ''mp4''), (''start_time'', JNum 50),
          (''duration'', JNum 10), (''quality'', JStr ''high''),
          (''video_duration'', JNum 60)] \<and>
   fst (handler (test_env probe_60 tool_ok (Some (File ''clip'')) None)
          (clip_request (Some ''extract_clip'') ''http://h/v.mp4'' 50 30 ''high'') empty_world) =
     [(''success'', JBool True), (''operation'', JStr ''extract_clip''),
      (''clip_data'', JStr ''Y2xpcA==''), (''file_size'', JInt 4),
      (''format'', JStr ''mp4''), (''start_time'', JNum 50),
      (''duration'', JNum 10), (''quality'', JStr ''high''),
      (''video_duration'', JNum 60)]"
proof -
  let ?ji = "clip_input None ''http://h/v.mp4'' 50 30 ''high''"
  have h1: "0 \<le> requested_start_time ?ji" by (simp add: eval_defs)
  have h2: "0 < requested_duration ?ji" by (simp add: eval_defs)
  have h3: "(0::real) < 60" by simp
  have h4: "float_add (requested_start_time ?ji) (requested_duration ?ji) > 60"
    by (simp add: eval_defs)
  show ?thesis
    using h1 h2 h3 h4
      clip_duration_clamped [OF h1 h2 h3 h4,
        of "test_env probe_60 tool_ok (Some (File ''clip'')) None"
           "''/tmp/job''" "''/tmp/job/input.mp4''" empty_world]
    by (simp add: eval_defs)
qed

text \<open>
  Where the exact sum exceeds \<open>D\<close> and the sum in doubles does not, the handler does not
  clamp: with \<open>s = 50\<close>, \<open>D = 60\<close> and \<open>d\<close> the double next above 10 (printed as
  10.000000000000002), ffmpeg is run with \<open>-t d\<close>.
\<close>

lemma no_clamp_within_rounding:
  "(50::real) + (10 + 1 / 2 ^ 49) > 60 \<and>
   float_add 50 (10 + 1 / 2 ^ 49) = 60 \<and>
   trace (snd (handler_extract (test_env probe_60 tool_ok (Some (File ''clip'')) None)
             (clip_input None ''http://h/v.mp4'' 50 (10 + 1 / 2 ^ 49) ''high'')
             ''/tmp/job'' ''/tmp/job/input.mp4'' 60 empty_world)) =
     [extract_cmd ''/tmp/job/input.mp4'' ''/tmp/job/output.mp4'' 50 (10 + 1 / 2 ^ 49)
        \<lparr>crf = ''23'', preset = ''fast''\<rparr>]"
proof -
  define d :: real where "d = 10 + 1 / 2 ^ 49"
  define ji where "ji = clip_input None ''http://h/v.mp4'' 50 d ''high''"
  let ?E = "test_env probe_60 tool_ok (Some (File ''clip'')) None"
  have a: "float_add 50 d = 60"
    by (simp only: float_add_def d_def round_double_example)
  have e: "(50::real) + d > 60" by (simp add: d_def)
  have s: "requested_start_time ji = 50" and d: "requested_duration ji = d"
    and q: "requested_quality ji = ''high''" and f: "requested_format ji = ''mp4''"
    by (simp_all add: ji_def clip_input_def requested_start_time_def requested_duration_def
        requested_quality_def requested_format_def)
  have "0 < d" by (simp add: d_def)
  then have v: "0 \<le> requested_start_time ji" "0 < requested_duration ji"
    by (simp_all add: s d)
  have st: "select_settings (requested_quality ji) = Inr \<lparr>crf = ''23'', preset = ''fast''\<rparr>"
    by (simp add: q select_settings_def quality_presets_def)
  have c: "\<not> (float_add (requested_start_time ji) (requested_duration ji) > 60)"
    by (simp add: s d a)
  have o: "path_join ''/tmp/job'' (''output.'' @ requested_format ji) = ''/tmp/job/output.mp4''"
    by (simp add: f path_join_def)
  have "trace (snd (handler_extract ?E ji ''/tmp/job'' ''/tmp/job/input.mp4'' 60 empty_world)) =
        trace empty_world @
        [extract_cmd ''/tmp/job/input.mp4'' (path_join ''/tmp/job'' (''output.'' @ requested_format ji))
           (requested_start_time ji) (requested_duration ji) \<lparr>crf = ''23'', preset = ''fast''\<rparr>]"
    using c extract_clip_trace [OF st, of ?E
        "''/tmp/job/input.mp4''" "path_join ''/tmp/job'' (''output.'' @ requested_format ji)"
        "requested_start_time ji" "requested_duration ji" empty_world]
    by (auto simp add: handler_extract_valid [OF v] Let_def split: prod.splits sum.splits)
  then have "trace (snd (handler_extract ?E ji ''/tmp/job'' ''/tmp/job/input.mp4'' 60 empty_world)) =
     [extract_cmd ''/tmp/job/input.mp4'' ''/tmp/job/output.mp4'' 50 d
        \<lparr>crf = ''23'', preset = ''fast''\<rparr>]"
    by (simp only: o s d) (simp add: empty_world_def)
  with a e show ?thesis unfolding ji_def d_def by blast
qed

text \<open>
  C10. The check \<open>duration > 0\<close> comes before the clamping only. With valid \<open>s\<close> and
  \<open>d\<close>, a probed duration \<open>0 < D \<le> s\<close> and \<open>s + d > D\<close> (sum and difference as the
  handler computes them, in doubles), the clamped duration \<open>D - s\<close> is zero or negative,
  ffmpeg is run with it all the same, and no validation error is raised.
\<close>

theorem clamped_duration_not_revalidated:
  assumes "0 \<le> requested_start_time ji" and "0 < requested_duration ji"
    and "0 < D" and "D \<le> requested_start_time ji"
    and "float_add (requested_start_time ji) (requested_duration ji) > D"
  shows "float_sub D (requested_start_time ji) \<le> 0 \<and>
         (\<exists>st. trace (snd (handler_extract env ji td ip D w)) =
            trace w @ [extract_cmd ip (path_join td (''output.'' @ requested_format ji))
                         (requested_start_time ji)
                         (float_sub D (requested_start_time ji)) st]) \<and>
         (\<forall>m. fst (handler_extract env ji td ip D w) \<noteq> Inl (ValueError m))"
proof -
  obtain st where st: "select_settings (requested_quality ji) = Inr st"
    using select_settings_total by blast
  let ?op = "path_join td (''output.'' @ requested_format ji)"
  let ?s = "requested_start_time ji"
  have neg: "float_sub D ?s \<le> 0"
    using assms(4) by (simp add: float_sub_def round_double_nonpos)
  have tr: "trace (snd (handler_extract env ji td ip D w)) =
              trace w @ [extract_cmd ip ?op ?s (float_sub D ?s) st]"
    using assms(1,2,3,5)
      extract_clip_trace [OF st, of env ip ?op ?s "float_sub D ?s" "print_line Warning_Clamp w"]
    by (auto simp add: handler_extract_valid Let_def split: prod.splits sum.splits)
  have nv: "fst (handler_extract env ji td ip D w) \<noteq> Inl (ValueError m)" for m
    using assms(1,2,3,5)
      extract_clip_no_ValueError [of env ip ?op ?s "float_sub D ?s" "requested_quality ji"
        "print_line Warning_Clamp w" m]
      read_file_no_ValueError [of _ ?op m]
    by (auto simp add: handler_extract_valid Let_def split: prod.splits sum.splits)
  from neg tr nv show ?thesis by blast
qed

theorem clamped_duration_not_revalidated_witness:
  "0 \<le> requested_start_time (clip_input None ''http://h/v.mp4'' 90 30 ''high'') \<and>
   0 < requested_duration (clip_input None ''http://h/v.mp4'' 90 30 ''high'') \<and>
   (0::real) < 60 \<and>
   60 \<le> requested_start_time (clip_input None ''http://h/v.mp4'' 90 30 ''high'') \<and>
   float_add (requested_start_time (clip_input None ''http://h/v.mp4'' 90 30 ''high''))
     (requested_duration (clip_input None ''http://h/v.mp4'' 90 30 ''high'')) > 60 \<and>
   float_sub 60 (requested_start_time (clip_input None ''http://h/v.mp4'' 90 30 ''high'')) = - 30 \<and>
   trace (snd (handler_extract (test_env probe_60 tool_ok (Some (File ''clip'')) None)
             (clip_input None ''http://h/v.mp4'' 90 30 ''high'')
             ''/tmp/job'' ''/tmp/job/input.mp4'' 60 empty_world)) =
     [extract_cmd ''/tmp/job/input.mp4'' ''/tmp/job/output.mp4'' 90 (- 30)
        \<lparr>crf = ''23'', preset = ''fast''\<rparr>] \<and>
   trace (snd (handler (test_env probe_60 tool_ok (Some (File ''clip'')) None)
                 (clip_request None ''http://h/v.mp4'' 90 30 ''high'') empty_world)) =
     [probe_cmd ''/tmp/job/input.mp4'',
      extract_cmd ''/tmp/job/input.mp4'' ''/tmp/job/output.mp4'' 90 (- 30)
        \<lparr>crf = ''23'', preset = ''fast''\<rparr>]"
proof -
  let ?ji = "clip_input None ''http://h/v.mp4'' 90 30 ''high''"
  have h1: "0 \<le> requested_start_time ?ji" by (simp add: eval_defs)
  have h2: "0 < requested_duration ?ji" by (simp add: eval_defs)
  have h3: "(0::real) < 60" by simp
  have h4: "60 \<le> requested_start_time ?ji" by (simp add: eval_defs)
  have h5: "float_add (requested_start_time ?ji) (requested_duration ?ji) > 60"
    by (simp add: eval_defs)
  show ?thesis
    using h1 h2 h3 h4 h5
      clamped_duration_not_revalidated [OF h1 h2 h3 h4 h5,
        of "test_env probe_60 tool_ok (Some (File ''clip'')) None"
           "''/tmp/job''" "''/tmp/job/input.mp4''" empty_world]
    by (simp add: eval_defs)
qed

subsection \<open>Quality presets\<close>

text \<open>
  C8. A quality outside \<open>high\<close>, \<open>medium\<close>, \<open>low\<close> selects the Medium preset (CRF 25,
  \<open>faster\<close>): the lookup raises nothing, extract_clip returns what it returns for
  \<open>medium\<close> and runs the same command; the three recognised values select their own
  row of the table.
\<close>

theorem unknown_quality_is_medium:
  assumes "q \<notin> {''high'', ''medium'', ''low''}"
  shows "select_settings q = Inr \<lparr>crf = ''25'', preset = ''faster''\<rparr> \<and>
         fst (extract_clip env ip op s d q w) = fst (extract_clip env ip op s d ''medium'' w) \<and>
         trace (snd (extract_clip env ip op s d q w)) =
           trace w @ [extract_cmd ip op s d \<lparr>crf = ''25'', preset = ''faster''\<rparr>] \<and>
         select_settings ''high'' = Inr \<lparr>crf = ''23'', preset = ''fast''\<rparr> \<and>
         select_settings ''medium'' = Inr \<lparr>crf = ''25'', preset = ''faster''\<rparr> \<and>
         select_settings ''low'' = Inr \<lparr>crf = ''28'', preset = ''veryfast''\<rparr>"
proof -
  let ?m = "\<lparr>crf = ''25'', preset = ''faster''\<rparr>"
  have q: "select_settings q = Inr ?m"
    using assms by (simp add: select_settings_def quality_presets_def)
  have m: "select_settings ''medium'' = Inr ?m"
    by (simp add: select_settings_def quality_presets_def)
  have h: "select_settings ''high'' = Inr \<lparr>crf = ''23'', preset = ''fast''\<rparr>"
    by (simp add: select_settings_def quality_presets_def)
  have l: "select_settings ''low'' = Inr \<lparr>crf = ''28'', preset = ''veryfast''\<rparr>"
    by (simp add: select_settings_def quality_presets_def)
  let ?cmd = "extract_cmd ip op s d ?m"
  have "fst (extract_clip_try env ?cmd op
              (print_line (FFmpeg_Command ?cmd) (print_line (FFmpeg_Extracting s d q) w))) =
        fst (extract_clip_try env ?cmd op
              (print_line (FFmpeg_Command ?cmd) (print_line (FFmpeg_Extracting s d ''medium'') w)))"
    by (rule extract_clip_try_fst_cong) simp
  then have same: "fst (extract_clip env ip op s d q w) = fst (extract_clip env ip op s d ''medium'' w)"
    by (auto simp add: extract_clip_def q m Let_def split: prod.splits sum.splits exn.splits)
  from q m h l same extract_clip_trace [OF q, of env ip op s d w] show ?thesis by simp
qed


theorem unknown_quality_is_medium_witness:
  "''ultra'' \<notin> {''high'', ''medium'', ''low''} \<and>
   select_settings ''ultra'' = Inr \<lparr>crf = ''25'', preset = ''faster''\<rparr> \<and>
   fst (extract_clip (test_env probe_60 tool_ok (Some (File ''clip'')) None)
          ''/tmp/job/input.mp4'' ''/tmp/job/output.mp4'' 0 30 ''ultra'' empty_world) =
     Inr ''/tmp/job/output.mp4'' \<and>
   trace (snd (extract_clip (test_env probe_60 tool_ok (Some (File ''clip'')) None)
          ''/tmp/job/input.mp4'' ''/tmp/job/output.mp4'' 0 30 ''ultra'' empty_world)) =
     [extract_cmd ''/tmp/job/input.mp4'' ''/tmp/job/output.mp4'' 0 30
        \<lparr>crf = ''25'', preset = ''faster''\<rparr>]"
proof -
  have h: "''ultra'' \<notin> {''high'', ''medium'', ''low''}" by simp
  show ?thesis
    using h unknown_quality_is_medium [OF h,
        of "test_env probe_60 tool_ok (Some (File ''clip'')) None"
           "''/tmp/job/input.mp4''" "''/tmp/job/output.mp4''" 0 30 empty_world]
    by (simp add: eval_defs)
qed

subsection \<open>Post-conditions of the two ffmpeg operations\<close>

text \<open>
  C6. extract_clip, when ffmpeg can be started (\<open>select_settings\<close> always yields some
  \<open>st\<close>): a run longer than 600 seconds fails with the timeout message; otherwise a
  non-zero exit code fails with a message that carries stderr, a missing output file and
  an empty output file each fail with a message of their own; a non-empty output file
  is returned. The four messages are pairwise distinct.
\<close>

theorem extract_clip_postconditions:
  assumes "select_settings q = Inr st"
    and "exec env (extract_cmd ip op s d st) (fs w) = (Exited t rc out err, f')"
  shows "(t > 600 \<longrightarrow> fst (extract_clip env ip op s d q w) =
            Inl (Exception ''FFmpeg processing timed out after 10 minutes'')) \<and>
         (t \<le> 600 \<and> rc \<noteq> 0 \<longrightarrow> fst (extract_clip env ip op s d q w) =
            Inl (Exception (''FFmpeg error: FFmpeg processing failed: '' @ err))) \<and>
         (t \<le> 600 \<and> rc = 0 \<and> f' op = None \<longrightarrow> fst (extract_clip env ip op s d q w) =
            Inl (Exception ''FFmpeg error: Output file was not created'')) \<and>
         (t \<le> 600 \<and> rc = 0 \<and> f' op = Some (File []) \<longrightarrow> fst (extract_clip env ip op s d q w) =
            Inl (Exception ''FFmpeg error: Output file is empty'')) \<and>
         (t \<le> 600 \<and> rc = 0 \<and> f' op = Some (File (b # bs)) \<longrightarrow>
            fst (extract_clip env ip op s d q w) = Inr op) \<and>
         distinct [''FFmpeg processing timed out after 10 minutes'',
                   ''FFmpeg error: FFmpeg processing failed: '' @ err,
                   ''FFmpeg error: Output file was not created'',
                   ''FFmpeg error: Output file is empty'']"
  using assms
  by (simp add: extract_clip_def extract_clip_try_def subprocess_run_def Let_def
      path_exists_def getsize_def str_exn_def)


theorem extract_clip_postconditions_witness:
  "fst (extract_clip (test_env probe_60 (Exited 601 0 [] []) (Some (File ''clip'')) None)
          ''/tmp/job/input.mp4'' ''/tmp/job/output.mp4'' 0 30 ''low'' empty_world) =
     Inl (Exception ''FFmpeg processing timed out after 10 minutes'') \<and>
   fst (extract_clip (test_env probe_60 (Exited 5 1 [] ''moov atom not found'') None None)
          ''/tmp/job/input.mp4'' ''/tmp/job/output.mp4'' 0 30 ''low'' empty_world) =
     Inl (Exception ''FFmpeg error: FFmpeg processing failed: moov atom not found'') \<and>
   fst (extract_clip (test_env probe_60 tool_ok None None)
          ''/tmp/job/input.mp4'' ''/tmp/job/output.mp4'' 0 30 ''low'' empty_world) =
     Inl (Exception ''FFmpeg error: Output file was not created'') \<and>
   fst (extract_clip (test_env probe_60 tool_ok (Some (File [])) None)
          ''/tmp/job/input.mp4'' ''/tmp/job/output.mp4'' 0 30 ''low'' empty_world) =
     Inl (Exception ''FFmpeg error: Output file is empty'') \<and>
   fst (extract_clip (test_env probe_60 tool_ok (Some (File ''clip'')) None)
          ''/tmp/job/input.mp4'' ''/tmp/job/output.mp4'' 0 30 ''low'' empty_world) =
     Inr ''/tmp/job/output.mp4''"
proof -
  let ?st = "\<lparr>crf = ''28'', preset = ''veryfast''\<rparr>"
  let ?ip = "''/tmp/job/input.mp4''" and ?op = "''/tmp/job/output.mp4''"
  have sel: "select_settings ''low'' = Inr ?st" by (simp add: eval_defs)
  have e1: "exec (test_env probe_60 (Exited 601 0 [] []) (Some (File ''clip'')) None)
              (extract_cmd ?ip ?op 0 30 ?st) (fs empty_world) =
            (Exited 601 0 [] [], [?op \<mapsto> File ''clip''])"
    by (simp add: eval_defs)
  have e2: "exec (test_env probe_60 (Exited 5 1 [] ''moov atom not found'') None None)
              (extract_cmd ?ip ?op 0 30 ?st) (fs empty_world) =
            (Exited 5 1 [] ''moov atom not found'', Map.empty)"
    by (simp add: eval_defs)
  have e3: "exec (test_env probe_60 tool_ok None None)
              (extract_cmd ?ip ?op 0 30 ?st) (fs empty_world) = (Exited 5 0 [] [], Map.empty)"
    by (simp add: eval_defs)
  have e4: "exec (test_env probe_60 tool_ok (Some (File [])) None)
              (extract_cmd ?ip ?op 0 30 ?st) (fs empty_world) =
            (Exited 5 0 [] [], [?op \<mapsto> File []])"
    by (simp add: eval_defs)
  have e5: "exec (test_env probe_60 tool_ok (Some (File ''clip'')) None)
              (extract_cmd ?ip ?op 0 30 ?st) (fs empty_world) =
            (Exited 5 0 [] [], [?op \<mapsto> File ''clip''])"
    by (simp add: eval_defs)
  show ?thesis
    using extract_clip_postconditions [OF sel e1] extract_clip_postconditions [OF sel e2]
      extract_clip_postconditions [OF sel e3] extract_clip_postconditions [OF sel e4]
      extract_clip_postconditions [OF sel e5, of "CHR ''c''" "''lip''"]
    by simp
qed

text \<open>
  C5. generate_thumbnail checks the exit code and the existence of the output file but,
  unlike extract_clip, not its size: when ffmpeg exits with code 0 and leaves an empty
  file, generate_thumbnail returns the path (extract_clip fails in the same environment
  with "Output file is empty"), and the handler answers success with \<open>file_size = 0\<close>.
\<close>

theorem thumbnail_accepts_empty_output:
  "fst (generate_thumbnail (test_env probe_60 tool_ok (Some (File [])) None)
          ''/tmp/job/input.mp4'' ''/tmp/job/thumbnail.jpg'' 15 empty_world) =
     Inr ''/tmp/job/thumbnail.jpg'' \<and>
   fst (extract_clip (test_env probe_60 tool_ok (Some (File [])) None)
          ''/tmp/job/input.mp4'' ''/tmp/job/output.mp4'' 0 15 ''medium'' empty_world) =
     Inl (Exception ''FFmpeg error: Output file is empty'') \<and>
   fst (handler (test_env probe_60 tool_ok (Some (File [])) None)
          (thumbnail_request ''http://h/v.mp4'' 15) empty_world) =
     [(''success'', JBool True), (''operation'', JStr ''generate_thumbnail''),
      (''thumbnail_data'', JStr []), (''file_size'', JInt 0),
      (''format'', JStr ''jpg''), (''time'', JNum 15)]"
  by (simp add: eval_defs)

subsection \<open>Validation\<close>

text \<open>
  C4, as the claim has it, fails: for the request \<open>{"video_url": ""}\<close> the failure
  response echoes the operation as \<open>unknown\<close>, not as \<open>extract_clip\<close>.
\<close>

theorem missing_url_operation_counterexample:
  "fst (handler (test_env probe_60 tool_ok (Some (File ''clip'')) None)
          empty_url_request empty_world) =
     [(''success'', JBool False), (''error'', JStr ''video_url is required''),
      (''operation'', JStr ''unknown'')] \<and>
   map_of (fst (handler (test_env probe_60 tool_ok (Some (File ''clip'')) None)
                  empty_url_request empty_world)) ''operation'' \<noteq>
     Some (JStr ''extract_clip'')"
  by (simp add: eval_defs)

text \<open>
  C4, amended. When video_url is absent or empty the handler returns
  \<open>{success: false, error: "video_url is required", operation: o}\<close> where \<open>o\<close> is the
  request's operation field as given, or \<open>unknown\<close> when the field is absent; it prints
  two lines and changes nothing else: no workspace is created and no command is run.
\<close>

theorem missing_url_rejected:
  assumes "in_video_url (event_get_input ev) = None \<or> in_video_url (event_get_input ev) = Some []"
  shows "handler env ev w =
     ([(''success'', JBool False),
       (''error'', JStr ''video_url is required''),
       (''operation'', JStr (case in_operation (event_get_input ev) of
                               None \<Rightarrow> ''unknown'' | Some v \<Rightarrow> v))],
      w\<lparr>printed := printed w @ [Handler_Received (event_get_input ev),
                                 Handler_Failed ''video_url is required'']\<rparr>)"
  using assms
  by (auto simp add: handler_def handler_try_def handler_except_def handler_finally_def
      str_exn_def print_line_def Let_def)


theorem missing_url_rejected_witness:
  "in_video_url (event_get_input empty_url_request) = Some [] \<and>
   handler (test_env probe_60 tool_ok (Some (File ''clip'')) None) empty_url_request empty_world =
     ([(''success'', JBool False), (''error'', JStr ''video_url is required''),
       (''operation'', JStr ''unknown'')],
      \<lparr>fs = Map.empty, trace = [],
       printed = [Handler_Received (event_get_input empty_url_request),
                  Handler_Failed ''video_url is required'']\<rparr>)"
proof -
  have h: "in_video_url (event_get_input empty_url_request) = Some []"
    by (simp add: eval_defs)
  then have h': "in_video_url (event_get_input empty_url_request) = None \<or>
                 in_video_url (event_get_input empty_url_request) = Some []" by simp
  show ?thesis
    using h missing_url_rejected [OF h',
        of "test_env probe_60 tool_ok (Some (File ''clip'')) None" empty_world]
    by (simp add: eval_defs)
qed

text \<open>
  C3, as the claim has it, fails: with \<open>start_time = -1\<close> the job fails with the
  validation error, but only after the download and after ffprobe has been run.
\<close>

theorem validation_after_probe_counterexample:
  "fst (handler (test_env probe_60 tool_ok (Some (File ''clip'')) None)
          (clip_request (Some ''extract_clip'') ''http://h/v.mp4'' (- 1) 30 ''high'')
          empty_world) =
     [(''success'', JBool False), (''error'', JStr ''start_time must be >= 0''),
      (''operation'', JStr ''extract_clip'')] \<and>
   trace (snd (handler (test_env probe_60 tool_ok (Some (File ''clip'')) None)
                 (clip_request (Some ''extract_clip'') ''http://h/v.mp4'' (- 1) 30 ''high'')
                 empty_world)) =
     [probe_cmd ''/tmp/job/input.mp4''] \<and>
   trace (snd (handler (test_env probe_60 tool_ok (Some (File ''clip'')) None)
                 (clip_request (Some ''extract_clip'') ''http://h/v.mp4'' (- 1) 30 ''high'')
                 empty_world)) \<noteq> trace empty_world"
  by (simp add: eval_defs)

text \<open>
  C3, amended. For a clip request (operation not \<open>generate_thumbnail\<close>, video_url not
  empty) with \<open>start_time < 0\<close> or \<open>duration \<le> 0\<close> the job fails, and the only command
  it can have run is the duration probe: ffmpeg is never run. When the workspace is
  acquired and the download succeeds, the failure is the validation error, raised after
  ffprobe has run on the downloaded file.
\<close>

theorem invalid_times_rejected:
  assumes "in_video_url (event_get_input ev) = Some url" and "url \<noteq> []"
    and "in_operation (event_get_input ev) \<noteq> Some ''generate_thumbnail''"
    and "requested_start_time (event_get_input ev) < 0 \<or>
         requested_duration (event_get_input ev) \<le> 0"
  shows "map_of (fst (handler env ev w)) ''success'' = Some (JBool False) \<and>
         (trace (snd (handler env ev w)) = trace w \<or>
          (\<exists>p. trace (snd (handler env ev w)) = trace w @ [probe_cmd p])) \<and>
         (mkdtemp env (fs w) = Inr td \<and> http_get env url = Http_Stream tot chunks None \<longrightarrow>
            fst (handler env ev w) =
              [(''success'', JBool False),
               (''error'', JStr (if requested_start_time (event_get_input ev) < 0
                                 then ''start_time must be >= 0'' else ''duration must be > 0'')),
               (''operation'', JStr (case in_operation (event_get_input ev) of
                                       None \<Rightarrow> ''unknown'' | Some v \<Rightarrow> v))] \<and>
            trace (snd (handler env ev w)) = trace w @ [probe_cmd (input_path_for td url)])"
proof -
  let ?w0 = "print_line (Handler_Received (event_get_input ev)) w"
  note t = handler_try_invalid_times [OF assms, of env ?w0 td tot chunks]
  from t obtain e where e: "fst (handler_try env ev ?w0) = Inl e" by blast
  have a: "map_of (fst (handler env ev w)) ''success'' = Some (JBool False)"
    using e by (simp add: handler_response [of env ev w w] handler_except_def Let_def)
  have b: "trace (snd (handler env ev w)) = trace w \<or>
          (\<exists>p. trace (snd (handler env ev w)) = trace w @ [probe_cmd p])"
    using t by (simp add: handler_trace)
  have c: "fst (handler env ev w) =
              [(''success'', JBool False),
               (''error'', JStr (if requested_start_time (event_get_input ev) < 0
                                 then ''start_time must be >= 0'' else ''duration must be > 0'')),
               (''operation'', JStr (case in_operation (event_get_input ev) of
                                       None \<Rightarrow> ''unknown'' | Some v \<Rightarrow> v))] \<and>
            trace (snd (handler env ev w)) = trace w @ [probe_cmd (input_path_for td url)]"
    if "mkdtemp env (fs w) = Inr td" "http_get env url = Http_Stream tot chunks None"
    using t that
    by (simp add: handler_response [of env ev w w] handler_trace handler_except_def str_exn_def Let_def)
  from a b c show ?thesis by blast
qed

theorem invalid_times_rejected_witness:
  "in_video_url (event_get_input (clip_request None ''http://h/v.mp4'' 5 0 ''high'')) =
     Some ''http://h/v.mp4'' \<and>
   ''http://h/v.mp4'' \<noteq> [] \<and>
   in_operation (event_get_input (clip_request None ''http://h/v.mp4'' 5 0 ''high'')) \<noteq>
     Some ''generate_thumbnail'' \<and>
   requested_duration (event_get_input (clip_request None ''http://h/v.mp4'' 5 0 ''high'')) \<le> 0 \<and>
   mkdtemp (test_env probe_60 tool_ok (Some (File ''clip'')) None) (fs empty_world) =
     Inr ''/tmp/job'' \<and>
   http_get (test_env probe_60 tool_ok (Some (File ''clip'')) None) ''http://h/v.mp4'' =
     Http_Stream 5 [''vid'', ''eo''] None \<and>
   fst (handler (test_env probe_60 tool_ok (Some (File ''clip'')) None)
          (clip_request None ''http://h/v.mp4'' 5 0 ''high'') empty_world) =
     [(''success'', JBool False), (''error'', JStr ''duration must be > 0''),
      (''operation'', JStr ''unknown'')] \<and>
   trace (snd (handler (test_env probe_60 tool_ok (Some (File ''clip'')) None)
                 (clip_request None ''http://h/v.mp4'' 5 0 ''high'') empty_world)) =
     [probe_cmd ''/tmp/job/input.mp4'']"
proof -
  let ?ev = "clip_request None ''http://h/v.mp4'' 5 0 ''high''"
  let ?E = "test_env probe_60 tool_ok (Some (File ''clip'')) None"
  have h1: "in_video_url (event_get_input ?ev) = Some ''http://h/v.mp4''"
    by (simp add: eval_defs)
  have h2: "''http://h/v.mp4'' \<noteq> []" by simp
  have h3: "in_operation (event_get_input ?ev) \<noteq> Some ''generate_thumbnail''"
    by (simp add: eval_defs)
  have h4: "requested_duration (event_get_input ?ev) \<le> 0" by (simp add: eval_defs)
  then have h4': "requested_start_time (event_get_input ?ev) < 0 \<or>
                  requested_duration (event_get_input ?ev) \<le> 0" by simp
  have h5: "mkdtemp ?E (fs empty_world) = Inr ''/tmp/job''" by (simp add: eval_defs)
  have h6: "http_get ?E ''http://h/v.mp4'' = Http_Stream 5 [''vid'', ''eo''] None"
    by (simp add: eval_defs)
  show ?thesis
    using h1 h2 h3 h4 h5 h6
      invalid_times_rejected [OF h1 h2 h3 h4', of ?E empty_world "''/tmp/job''" 5 "[''vid'', ''eo'']"]
    by (simp add: eval_defs)
qed

subsection \<open>The workspace\<close>

lemma py_mkdtemp_ok:
  assumes "mkdtemp env (fs w) = Inr d"
  shows "py_mkdtemp env w = (Inr d, w\<lparr>fs := (fs w)(d \<mapsto> Dir)\<rparr>)"
  using assms by (simp add: py_mkdtemp_def)




text \<open>Nothing but the finally clause looks at what rmtree does.\<close>

lemma subprocess_run_rmtree [simp]:
  "subprocess_run (env\<lparr>rmtree_fail := rf\<rparr>) cmd t c w = subprocess_run env cmd t c w"
  by (simp add: subprocess_run_def)

lemma str_exn_rmtree [simp]: "str_exn (env\<lparr>rmtree_fail := rf\<rparr>) e = str_exn env e"
  by (simp add: str_exn_def split: exn.splits)

lemma getsize_rmtree [simp]: "getsize (env\<lparr>rmtree_fail := rf\<rparr>) w p = getsize env w p"
  by (simp add: getsize_def split: option.splits node.splits)

lemma py_mkdtemp_rmtree [simp]: "py_mkdtemp (env\<lparr>rmtree_fail := rf\<rparr>) w = py_mkdtemp env w"
  by (simp add: py_mkdtemp_def)

lemma download_file_rmtree [simp]:
  "download_file (env\<lparr>rmtree_fail := rf\<rparr>) url dest w = download_file env url dest w"
  by (simp add: download_file_def)

lemma get_video_duration_rmtree [simp]:
  "get_video_duration (env\<lparr>rmtree_fail := rf\<rparr>) ip w = get_video_duration env ip w"
  by (simp add: get_video_duration_def split: prod.splits sum.splits)

lemma extract_clip_rmtree [simp]:
  "extract_clip (env\<lparr>rmtree_fail := rf\<rparr>) ip op s d q w = extract_clip env ip op s d q w"
  by (simp add: extract_clip_def extract_clip_try_def Let_def
      cong: prod.case_cong sum.case_cong exn.case_cong if_cong)

lemma generate_thumbnail_rmtree [simp]:
  "generate_thumbnail (env\<lparr>rmtree_fail := rf\<rparr>) ip op t w = generate_thumbnail env ip op t w"
  by (simp add: generate_thumbnail_def generate_thumbnail_try_def Let_def
      cong: prod.case_cong sum.case_cong exn.case_cong if_cong)

lemma handler_extract_rmtree [simp]:
  "handler_extract (env\<lparr>rmtree_fail := rf\<rparr>) ji td ip D w = handler_extract env ji td ip D w"
  by (simp add: handler_extract_def Let_def cong: prod.case_cong sum.case_cong if_cong)

lemma handler_thumbnail_rmtree [simp]:
  "handler_thumbnail (env\<lparr>rmtree_fail := rf\<rparr>) ji td ip w = handler_thumbnail env ji td ip w"
  by (simp add: handler_thumbnail_def Let_def cong: prod.case_cong sum.case_cong if_cong)

lemma handler_try_rmtree [simp]:
  "handler_try (env\<lparr>rmtree_fail := rf\<rparr>) ev w = handler_try env ev w"
  by (simp add: handler_try_def Let_def cong: prod.case_cong sum.case_cong if_cong)




subsection \<open>The duration probe\<close>

text \<open>The try block of a clip request once the workspace is acquired and the download has succeeded.\<close>

lemma handler_try_extract:
  assumes url: "in_video_url (event_get_input ev) = Some url" "url \<noteq> []"
    and op: "in_operation (event_get_input ev) \<noteq> Some ''generate_thumbnail''"
    and mk: "mkdtemp env (fs w) = Inr td"
    and http: "http_get env url = Http_Stream tot chunks None"
  shows "\<exists>w3 D w4.
    fs w3 = (fs w)(td \<mapsto> Dir, input_path_for td url \<mapsto> File (concat chunks)) \<and>
    trace w3 = trace w \<and>
    get_video_duration env (input_path_for td url) w3 = (D, w4) \<and>
    handler_try env ev w =
         (case handler_extract env (event_get_input ev) td (input_path_for td url) D w4 of
            (Inl e, w5) \<Rightarrow> (Inl e, Some td, w5)
          | (Inr result, w5) \<Rightarrow> (Inr result, Some td, print_line Handler_Completed w5))"
proof -
  let ?ip = "input_path_for td url"
  let ?w2 = "print_line (Handler_Workdir td) (w\<lparr>fs := (fs w)(td \<mapsto> Dir)\<rparr>)"
  obtain r3 w3 where dl: "download_file env url ?ip ?w2 = (r3, w3)" by fastforce
  have r3: "r3 = Inr ?ip" and fs3: "fs w3 = (fs w)(td \<mapsto> Dir, ?ip \<mapsto> File (concat chunks))"
    using download_file_ok [OF http, of ?ip ?w2] dl by simp_all
  have tr3: "trace w3 = trace w"
    using download_file_trace [of env url ?ip ?w2] dl by simp
  obtain D w4 where gv: "get_video_duration env ?ip w3 = (D, w4)" by fastforce
  have "(case in_operation (event_get_input ev) of None \<Rightarrow> ''extract_clip'' | Some v \<Rightarrow> v)
            \<noteq> ''generate_thumbnail''"
    using op by (auto split: option.splits)
  then have "handler_try env ev w =
         (case handler_extract env (event_get_input ev) td ?ip D w4 of
            (Inl e, w5) \<Rightarrow> (Inl e, Some td, w5)
          | (Inr result, w5) \<Rightarrow> (Inr result, Some td, print_line Handler_Completed w5))"
    using url dl r3 gv py_mkdtemp_ok [OF mk] by (simp add: handler_try_def Let_def)
  with fs3 tr3 gv show ?thesis by blast
qed

lemma handler_extract_unclamped_trace:
  assumes "0 \<le> requested_start_time ji" and "0 < requested_duration ji"
    and "select_settings (requested_quality ji) = Inr st"
  shows "trace (snd (handler_extract env ji td ip 0 w)) =
           trace w @ [extract_cmd ip (path_join td (''output.'' @ requested_format ji))
                        (requested_start_time ji) (requested_duration ji) st]"
  using assms(1,2)
    extract_clip_trace [OF assms(3), of env ip "path_join td (''output.'' @ requested_format ji)"
      "requested_start_time ji" "requested_duration ji" w]
  by (auto simp add: handler_extract_valid Let_def split: prod.splits sum.splits)

text \<open>
  C7. When the duration probe fails (ffprobe cannot be started, exits with a non-zero
  code, or prints what \<open>float\<close> rejects), get_video_duration returns 0 and prints a
  warning; it has no way to raise. The job goes on: a valid clip request whose download
  succeeded runs ffprobe and then ffmpeg with the requested duration, unclamped.
\<close>

theorem probe_failure_not_fatal:
  "(probe_fails env ip (fs w) \<longrightarrow>
      fst (get_video_duration env ip w) = 0 \<and>
      (\<exists>e. printed (snd (get_video_duration env ip w)) = printed w @ [Warning_Duration e])) \<and>
   (in_video_url (event_get_input ev) = Some url \<and> url \<noteq> [] \<and>
    in_operation (event_get_input ev) \<noteq> Some ''generate_thumbnail'' \<and>
    0 \<le> requested_start_time (event_get_input ev) \<and>
    0 < requested_duration (event_get_input ev) \<and>
    mkdtemp env (fs w) = Inr td \<and>
    http_get env url = Http_Stream tot chunks None \<and>
    probe_fails env (input_path_for td url)
      ((fs w)(td \<mapsto> Dir, input_path_for td url \<mapsto> File (concat chunks))) \<longrightarrow>
      (\<exists>st. trace (snd (handler env ev w)) =
         trace w @
         [probe_cmd (input_path_for td url),
          extract_cmd (input_path_for td url)
            (path_join td (''output.'' @ requested_format (event_get_input ev)))
            (requested_start_time (event_get_input ev))
            (requested_duration (event_get_input ev)) st]))"
proof -
  let ?ji = "event_get_input ev"
  let ?ip = "input_path_for td url"
  have "\<exists>st. trace (snd (handler env ev w)) =
         trace w @ [probe_cmd ?ip,
          extract_cmd ?ip (path_join td (''output.'' @ requested_format ?ji))
            (requested_start_time ?ji) (requested_duration ?ji) st]"
    if url: "in_video_url ?ji = Some url" "url \<noteq> []"
      and op: "in_operation ?ji \<noteq> Some ''generate_thumbnail''"
      and ok: "0 \<le> requested_start_time ?ji" "0 < requested_duration ?ji"
      and mk: "mkdtemp env (fs w) = Inr td"
      and http: "http_get env url = Http_Stream tot chunks None"
      and pf: "probe_fails env ?ip ((fs w)(td \<mapsto> Dir, ?ip \<mapsto> File (concat chunks)))"
  proof -
    let ?w0 = "print_line (Handler_Received ?ji) w"
    have mk0: "mkdtemp env (fs ?w0) = Inr td" using mk by simp
    obtain st where st: "select_settings (requested_quality ?ji) = Inr st"
      using select_settings_total by blast
    obtain w3 D w4 where
      fs3: "fs w3 = (fs ?w0)(td \<mapsto> Dir, ?ip \<mapsto> File (concat chunks))"
      and tr3: "trace w3 = trace ?w0"
      and gv: "get_video_duration env ?ip w3 = (D, w4)"
      and disp: "handler_try env ev ?w0 =
         (case handler_extract env ?ji td ?ip D w4 of
            (Inl e, w5) \<Rightarrow> (Inl e, Some td, w5)
          | (Inr result, w5) \<Rightarrow> (Inr result, Some td, print_line Handler_Completed w5))"
      using handler_try_extract [OF url op mk0 http] by blast
    have "probe_fails env ?ip (fs w3)" using pf fs3 by simp
    then have D: "D = 0" using get_video_duration_fails [of env ?ip w3] gv by simp
    have tr4: "trace w4 = trace w @ [probe_cmd ?ip]"
      using get_video_duration_trace [of env ?ip w3] gv tr3 by simp
    have "trace (snd (snd (handler_try env ev ?w0))) =
            trace w4 @ [extract_cmd ?ip (path_join td (''output.'' @ requested_format ?ji))
                        (requested_start_time ?ji) (requested_duration ?ji) st]"
      using handler_extract_unclamped_trace [OF ok st, of env td ?ip w4]
      by (auto simp add: disp D split: prod.splits sum.splits)
    then have "trace (snd (handler env ev w)) =
         trace w @ [probe_cmd ?ip,
          extract_cmd ?ip (path_join td (''output.'' @ requested_format ?ji))
            (requested_start_time ?ji) (requested_duration ?ji) st]"
      using tr4 by (simp add: handler_trace)
    then show ?thesis by (rule exI)
  qed
  then show ?thesis using get_video_duration_fails [of env ip w] by blast
qed


theorem probe_failure_not_fatal_witness:
  "probe_fails (test_env (Spawn_failed ''No such file or directory: ffprobe'') tool_ok
                  (Some (File ''clip'')) None) ''/tmp/job/input.mp4'' (fs empty_world) \<and>
   get_video_duration (test_env (Spawn_failed ''No such file or directory: ffprobe'') tool_ok
                  (Some (File ''clip'')) None) ''/tmp/job/input.mp4'' empty_world =
     (0, \<lparr>fs = Map.empty, trace = [probe_cmd ''/tmp/job/input.mp4''],
          printed = [Warning_Duration (OSError ''No such file or directory: ffprobe'')]\<rparr>) \<and>
   probe_fails (test_env (Exited 1 1 [] ''moov atom not found'') tool_ok
                  (Some (File ''clip'')) None) ''/tmp/job/input.mp4'' (fs empty_world) \<and>
   get_video_duration (test_env (Exited 1 1 [] ''moov atom not found'') tool_ok
                  (Some (File ''clip'')) None) ''/tmp/job/input.mp4'' empty_world =
     (0, \<lparr>fs = Map.empty, trace = [probe_cmd ''/tmp/job/input.mp4''],
          printed = [Warning_Duration
                       (CalledProcessError 1 (probe_cmd ''/tmp/job/input.mp4''))]\<rparr>) \<and>
   probe_fails (test_env (Exited 1 0 ''N/A'' []) tool_ok
                  (Some (File ''clip'')) None) ''/tmp/job/input.mp4'' (fs empty_world) \<and>
   get_video_duration (test_env (Exited 1 0 ''N/A'' []) tool_ok
                  (Some (File ''clip'')) None) ''/tmp/job/input.mp4'' empty_world =
     (0, \<lparr>fs = Map.empty, trace = [probe_cmd ''/tmp/job/input.mp4''],
          printed = [Warning_Duration
                       (ValueError (''could not convert string to float: '' @ quote ''N/A''))]\<rparr>) \<and>
   fst (handler (test_env (Exited 1 0 ''N/A'' []) tool_ok (Some (File ''clip'')) None)
          (clip_request None ''http://h/v.mp4'' 50 30 ''high'') empty_world) =
     [(''success'', JBool True), (''operation'', JStr ''extract_clip''),
      (''clip_data'', JStr ''Y2xpcA==''), (''file_size'', JInt 4),
      (''format'', JStr ''mp4''), (''start_time'', JNum 50),
      (''duration'', JNum 30), (''quality'', JStr ''high''),
      (''video_duration'', JNum 0)] \<and>
   trace (snd (handler (test_env (Exited 1 0 ''N/A'' []) tool_ok (Some (File ''clip'')) None)
                 (clip_request None ''http://h/v.mp4'' 50 30 ''high'') empty_world)) =
     [probe_cmd ''/tmp/job/input.mp4'',
      extract_cmd ''/tmp/job/input.mp4'' ''/tmp/job/output.mp4'' 50 30
        \<lparr>crf = ''23'', preset = ''fast''\<rparr>]"
proof -
  let ?ev = "clip_request None ''http://h/v.mp4'' 50 30 ''high''"
  let ?E1 = "test_env (Spawn_failed ''No such file or directory: ffprobe'') tool_ok
               (Some (File ''clip'')) None"
  let ?E2 = "test_env (Exited 1 1 [] ''moov atom not found'') tool_ok (Some (File ''clip'')) None"
  let ?E3 = "test_env (Exited 1 0 ''N/A'' []) tool_ok (Some (File ''clip'')) None"
  have p1: "probe_fails ?E1 ''/tmp/job/input.mp4'' (fs empty_world)" by (simp add: eval_defs)
  have p2: "probe_fails ?E2 ''/tmp/job/input.mp4'' (fs empty_world)" by (simp add: eval_defs)
  have p3: "probe_fails ?E3 ''/tmp/job/input.mp4'' (fs empty_world)" by (simp add: eval_defs)
  show ?thesis
    using p1 p2 p3
      probe_failure_not_fatal [where env = ?E1 and ip = "''/tmp/job/input.mp4''"
        and w = empty_world and ev = ?ev and url = "''http://h/v.mp4''" and td = "''/tmp/job''"
        and tot = 5 and chunks = "[''vid'', ''eo'']"]
      probe_failure_not_fatal [where env = ?E2 and ip = "''/tmp/job/input.mp4''"
        and w = empty_world and ev = ?ev and url = "''http://h/v.mp4''" and td = "''/tmp/job''"
        and tot = 5 and chunks = "[''vid'', ''eo'']"]
      probe_failure_not_fatal [where env = ?E3 and ip = "''/tmp/job/input.mp4''"
        and w = empty_world and ev = ?ev and url = "''http://h/v.mp4''" and td = "''/tmp/job''"
        and tot = 5 and chunks = "[''vid'', ''eo'']"]
    by (simp add: eval_defs)
qed

subsection \<open>Dispatch\<close>

lemma handler_extract_operation [simp]:
  "handler_extract env (ji\<lparr>in_operation := x\<rparr>) td ip D w = handler_extract env ji td ip D w"
  by (simp add: handler_extract_def requested_start_time_def requested_duration_def
      requested_quality_def requested_format_def)

lemma handler_extract_echo:
  assumes "fst (handler_extract env ji td ip D w) = Inr r"
  shows "map_of r ''operation'' = Some (JStr ''extract_clip'')"
  using assms
  by (auto simp add: handler_extract_def Let_def split: if_splits prod.splits sum.splits)

lemma handler_extract_echo_pair:
  assumes "handler_extract env ji td ip D w = (Inr r, w')"
  shows "map_of r ''operation'' = Some (JStr ''extract_clip'')"
  using assms handler_extract_echo [of env ji td ip D w r] by simp

lemma handler_try_extract_echo:
  assumes "in_operation (event_get_input ev) \<noteq> Some ''generate_thumbnail''"
    and "fst (handler_try env ev w) = Inr r"
  shows "map_of r ''operation'' = Some (JStr ''extract_clip'')"
proof -
  have op: "(case in_operation (event_get_input ev) of None \<Rightarrow> ''extract_clip'' | Some v \<Rightarrow> v)
            \<noteq> ''generate_thumbnail''"
    using assms(1) by (auto split: option.splits)
  show ?thesis
    using assms(2) op
    by (auto simp add: handler_try_def Let_def split: if_splits prod.splits sum.splits
        dest: handler_extract_echo_pair)
qed

text \<open>
  C9. A request whose operation is absent or any string other than
  \<open>generate_thumbnail\<close> is processed exactly as the same request with operation
  \<open>extract_clip\<close>: the try block returns the same result and leaves the same world, so no
  operation value is rejected; and a success response has operation \<open>extract_clip\<close>.
\<close>

theorem unknown_operation_is_extract_clip:
  assumes "in_operation (event_get_input ev) \<noteq> Some ''generate_thumbnail''"
  shows "handler_try env ev w =
           handler_try env
             \<lparr>ev_input = Some ((event_get_input ev)\<lparr>in_operation := Some ''extract_clip''\<rparr>)\<rparr> w \<and>
         (map_of (fst (handler env ev w)) ''success'' = Some (JBool True) \<longrightarrow>
            map_of (fst (handler env ev w)) ''operation'' = Some (JStr ''extract_clip''))"
proof -
  have op: "(case in_operation (event_get_input ev) of None \<Rightarrow> ''extract_clip'' | Some v \<Rightarrow> v)
            \<noteq> ''generate_thumbnail''"
    using assms by (auto split: option.splits)
  have a: "handler_try env ev w =
           handler_try env
             \<lparr>ev_input = Some ((event_get_input ev)\<lparr>in_operation := Some ''extract_clip''\<rparr>)\<rparr> w"
    using op
    by (simp add: handler_try_def Let_def event_get_input_def
        cong: prod.case_cong sum.case_cong if_cong)
  have b: "map_of (fst (handler env ev w)) ''operation'' = Some (JStr ''extract_clip'')"
    if "map_of (fst (handler env ev w)) ''success'' = Some (JBool True)"
    using that handler_try_extract_echo [OF assms, of env "print_line (Handler_Received (event_get_input ev)) w"]
    by (auto simp add: handler_response [of env ev w w] handler_except_def Let_def split: sum.splits)
  from a b show ?thesis by blast
qed

theorem unknown_operation_is_extract_clip_witness:
  "in_operation (event_get_input (clip_request (Some ''transcode'') ''http://h/v.mp4'' 0 3 ''low''))
     \<noteq> Some ''generate_thumbnail'' \<and>
   fst (handler (test_env probe_60 tool_ok (Some (File ''clip'')) None)
          (clip_request (Some ''transcode'') ''http://h/v.mp4'' 0 3 ''low'') empty_world) =
     [(''success'', JBool True), (''operation'', JStr ''extract_clip''),
      (''clip_data'', JStr ''Y2xpcA==''), (''file_size'', JInt 4),
      (''format'', JStr ''mp4''), (''start_time'', JNum 0),
      (''duration'', JNum 3), (''quality'', JStr ''low''),
      (''video_duration'', JNum 60)] \<and>
   in_operation (event_get_input (clip_request None ''http://h/v.mp4'' 0 3 ''low''))
     \<noteq> Some ''generate_thumbnail'' \<and>
   map_of (fst (handler (test_env probe_60 tool_ok (Some (File ''clip'')) None)
          (clip_request None ''http://h/v.mp4'' 0 3 ''low'') empty_world)) ''operation'' =
     Some (JStr ''extract_clip'') \<and>
   trace (snd (handler (test_env probe_60 tool_ok (Some (File ''clip'')) None)
          (clip_request (Some ''transcode'') ''http://h/v.mp4'' 0 3 ''low'') empty_world)) =
     [probe_cmd ''/tmp/job/input.mp4'',
      extract_cmd ''/tmp/job/input.mp4'' ''/tmp/job/output.mp4'' 0 3
        \<lparr>crf = ''28'', preset = ''veryfast''\<rparr>]"
proof -
  let ?E = "test_env probe_60 tool_ok (Some (File ''clip'')) None"
  have h1: "in_operation (event_get_input (clip_request (Some ''transcode'') ''http://h/v.mp4'' 0 3 ''low''))
     \<noteq> Some ''generate_thumbnail''" by (simp add: eval_defs)
  have h2: "in_operation (event_get_input (clip_request None ''http://h/v.mp4'' 0 3 ''low''))
     \<noteq> Some ''generate_thumbnail''" by (simp add: eval_defs)
  show ?thesis
    using h1 h2
      unknown_operation_is_extract_clip [OF h1, of ?E empty_world]
      unknown_operation_is_extract_clip [OF h2, of ?E empty_world]
    by (simp add: eval_defs)
qed

end
